theory Spec2Isabelle
  imports Complex_Main "HOL-Library.Word"
begin

unbundle bit_operations_syntax

section \<open>The MIDI monitor (midimonitor.cpp)\<close>

text \<open>
  The level engine of mt32-pi keeps, for each of the 16 MIDI channels, the on/off ticks and
  the velocity of its 128 notes together with three controllers, and derives a loudness
  and a peak value per channel when queried.

  Conventions of the embedding:
  \<^item> \<open>u8\<close> and \<open>unsigned int\<close> are \<open>8 word\<close> and \<open>32 word\<close>; subtraction of ticks wraps.
  \<^item> \<open>float\<close> is modelled by \<open>real\<close>: arithmetic is exact, rounding and NaN are not
    modelled. The properties proved below rest on comparisons, clamping and the shape of
    the expressions the code evaluates.
  \<^item> Fixed-size arrays are lists; the shape of a well-formed object is \<open>wf_monitor\<close>.
  \<^item> An array access outside the declared bounds (undefined behaviour in C++) makes the
    operation return \<open>None\<close>.
  \<^item> \<open>CTimer::GetClockTicks()\<close> is an input: the tick read by an operation is a parameter.
\<close>

type_synonym u8 = "8 word"
type_synonym u32 = "32 word"

record TNoteState =
  nNoteOnTime :: u32
  nNoteOffTime :: u32
  nVelocity :: u8

record TChannelState =
  Notes :: "TNoteState list"
  nVolume :: u8
  nExpression :: u8
  nPan :: u8

record CMIDIMonitor =
  m_State :: "TChannelState list"
  m_PeakLevels :: "real list"
  m_PeakTimes :: "u32 list"

text \<open>
  Modelled from the spec: the header midimonitor.h, which declares the array sizes, is not
  part of the sources. The specification fixes 16 channels of 128 notes each.
\<close>

definition ChannelCount :: nat where
  "ChannelCount = 16"

definition NoteCount :: nat where
  "NoteCount = 128"

text \<open>
  The timing constants of midimonitor.h and the tick conversion of utility.h are not part of
  the sources either and the specification leaves their values open, so they are
  parameters of the model. \<open>TicksToMillis\<close> stands for the value of
  \<open>Utility::TicksToMillis(x)\<close> after its conversion to \<open>float\<close>.
\<close>

record TTiming =
  TicksToMillis :: "u32 \<Rightarrow> real"
  DecayReleaseTimeMillis :: real
  PeakHoldTimeMillis :: real
  PeakFalloffTimeMillis :: real

text \<open>
  Modelled from the spec: \<open>Utility::Max\<close>, \<open>Utility::Min\<close> and \<open>Utility::Clamp\<close> of the
  absent utility.h are the maximum, the minimum and the clamp to an interval.
\<close>

definition Utility_Max :: "'a::linorder \<Rightarrow> 'a \<Rightarrow> 'a" where
  "Utility_Max nLHS nRHS = (if nLHS < nRHS then nRHS else nLHS)"

definition Utility_Min :: "'a::linorder \<Rightarrow> 'a \<Rightarrow> 'a" where
  "Utility_Min nLHS nRHS = (if nLHS < nRHS then nLHS else nRHS)"

definition Utility_Clamp :: "'a::linorder \<Rightarrow> 'a \<Rightarrow> 'a \<Rightarrow> 'a" where
  "Utility_Clamp nValue nMin nMax =
     (if nValue < nMin then nMin else if nMax < nValue then nMax else nValue)"

subsection \<open>Resetting notes and controllers\<close>

definition AllNotesOff :: "CMIDIMonitor \<Rightarrow> CMIDIMonitor" where
  "AllNotesOff m =
     m\<lparr>m_State :=
         map (\<lambda>Channel.
                Channel\<lparr>Notes :=
                  map (\<lambda>Note. Note\<lparr>nNoteOnTime := 0, nNoteOffTime := 0, nVelocity := 0\<rparr>)
                      (Notes Channel)\<rparr>)
             (m_State m)\<rparr>"

definition ResetControllers :: "bool \<Rightarrow> CMIDIMonitor \<Rightarrow> CMIDIMonitor" where
  "ResetControllers bIsResetAllControllers m =
     m\<lparr>m_State :=
         map (\<lambda>Channel.
                let Channel = Channel\<lparr>nExpression := 127\<rparr>
                in if \<not> bIsResetAllControllers
                   then Channel\<lparr>nVolume := 100, nPan := 64\<rparr>
                   else Channel)
             (m_State m)\<rparr>"

text \<open>
  The constructor zeroes both peak arrays and then runs \<open>AllNotesOff\<close> and
  \<open>ResetControllers(false)\<close>, which assign every field of every channel; the contents of
  \<open>m_State\<close> before the body runs therefore do not matter and are taken as zero.
\<close>

definition CMIDIMonitor_new :: CMIDIMonitor where
  "CMIDIMonitor_new =
     ResetControllers False
       (AllNotesOff
          \<lparr>m_State =
             replicate ChannelCount
               \<lparr>Notes = replicate NoteCount \<lparr>nNoteOnTime = 0, nNoteOffTime = 0, nVelocity = 0\<rparr>,
                nVolume = 0, nExpression = 0, nPan = 0\<rparr>,
           m_PeakLevels = replicate ChannelCount 0,
           m_PeakTimes = replicate ChannelCount 0\<rparr>)"

subsection \<open>Decoding and dispatching a short message\<close>

definition msg_status :: "u32 \<Rightarrow> u8" where
  "msg_status nMessage = ucast (nMessage AND 0xF0)"

definition msg_channel :: "u32 \<Rightarrow> u8" where
  "msg_channel nMessage = ucast (nMessage AND 0x0F)"

definition msg_data1 :: "u32 \<Rightarrow> u8" where
  "msg_data1 nMessage = ucast (drop_bit 8 nMessage AND 0xFF)"

definition msg_data2 :: "u32 \<Rightarrow> u8" where
  "msg_data2 nMessage = ucast (drop_bit 16 nMessage AND 0xFF)"

text \<open>
  \<open>State.Notes[nData1].field = ...\<close> with \<open>State = m_State[nChannel]\<close>: the note index is a
  full byte, the array has \<open>NoteCount\<close> entries.
\<close>

definition update_note ::
  "u8 \<Rightarrow> u8 \<Rightarrow> (TNoteState \<Rightarrow> TNoteState) \<Rightarrow> CMIDIMonitor \<Rightarrow> CMIDIMonitor option" where
  "update_note nChannel nData1 f m =
     (if unat nData1 < NoteCount \<and> unat nChannel < length (m_State m)
      then let State = m_State m ! unat nChannel
           in Some (m\<lparr>m_State :=
                        (m_State m)[unat nChannel :=
                           State\<lparr>Notes := (Notes State)[unat nData1 := f (Notes State ! unat nData1)]\<rparr>]\<rparr>)
      else None)"

definition update_channel ::
  "u8 \<Rightarrow> (TChannelState \<Rightarrow> TChannelState) \<Rightarrow> CMIDIMonitor \<Rightarrow> CMIDIMonitor" where
  "update_channel nChannel f m =
     m\<lparr>m_State := (m_State m)[unat nChannel := f (m_State m ! unat nChannel)]\<rparr>"

definition ProcessCC :: "u8 \<Rightarrow> u8 \<Rightarrow> u8 \<Rightarrow> CMIDIMonitor \<Rightarrow> CMIDIMonitor" where
  "ProcessCC nChannel nCC nValue m =
     (if nCC = 0x07 then update_channel nChannel (\<lambda>State. State\<lparr>nVolume := nValue\<rparr>) m
      else if nCC = 0x0A then update_channel nChannel (\<lambda>State. State\<lparr>nPan := nValue\<rparr>) m
      else if nCC = 0x0B then update_channel nChannel (\<lambda>State. State\<lparr>nExpression := nValue\<rparr>) m
      else if nCC = 0x78 \<or> nCC = 0x7B \<or> nCC = 0x7C \<or> nCC = 0x7D \<or> nCC = 0x7E \<or> nCC = 0x7F
        then AllNotesOff m
      else if nCC = 0x79 then ResetControllers True m
      else m)"

definition OnShortMessage :: "u32 \<Rightarrow> u32 \<Rightarrow> CMIDIMonitor \<Rightarrow> CMIDIMonitor option" where
  "OnShortMessage nMessage nTicks m =
     (let nStatus = msg_status nMessage;
          nChannel = msg_channel nMessage;
          nData1 = msg_data1 nMessage;
          nData2 = msg_data2 nMessage
      in if nStatus = 0x80
           then update_note nChannel nData1 (\<lambda>Note. Note\<lparr>nNoteOffTime := nTicks\<rparr>) m
         else if nStatus = 0x90
           then (if nData2 \<noteq> 0
                 then update_note nChannel nData1
                        (\<lambda>Note. Note\<lparr>nNoteOnTime := nTicks, nNoteOffTime := 0, nVelocity := nData2\<rparr>) m
                 else update_note nChannel nData1 (\<lambda>Note. Note\<lparr>nNoteOffTime := nTicks\<rparr>) m)
         else if nStatus = 0xB0
           then Some (ProcessCC nChannel nData1 nData2 m)
         else if nStatus = 0xFF
           then Some (ResetControllers False (AllNotesOff m))
         else Some m)"

subsection \<open>Envelopes and channel levels\<close>

definition EaseFunction :: "real \<Rightarrow> real" where
  "EaseFunction nInput = - ((nInput - 1) * (nInput - 1)) + 1"

definition ComputeEnvelope :: "TTiming \<Rightarrow> u32 \<Rightarrow> TNoteState \<Rightarrow> real" where
  "ComputeEnvelope T nTicks NoteState =
     (if nNoteOnTime NoteState = 0 then 0
      else let nTicks = Utility_Max nTicks (nNoteOnTime NoteState)
           in if nNoteOffTime NoteState = 0 then 1
              else let nNoteOffDurationMillis =
                         Utility_Min (TicksToMillis T (nTicks - nNoteOffTime NoteState))
                                     (DecayReleaseTimeMillis T)
                   in EaseFunction
                        (Utility_Max (1 - nNoteOffDurationMillis / DecayReleaseTimeMillis T) 0))"

definition ComputePercussionEnvelope :: "TTiming \<Rightarrow> u32 \<Rightarrow> TNoteState \<Rightarrow> real" where
  "ComputePercussionEnvelope T nTicks NoteState =
     (if nNoteOnTime NoteState = 0 then 0
      else let nTicks = Utility_Max nTicks (nNoteOnTime NoteState);
               nNoteOnDurationMillis =
                 Utility_Min (TicksToMillis T (nTicks - nNoteOnTime NoteState))
                             (DecayReleaseTimeMillis T)
           in EaseFunction
                (Utility_Max (1 - nNoteOnDurationMillis / DecayReleaseTimeMillis T) 0))"

text \<open>The body of the inner loop of \<open>GetChannelLevels\<close>: the volume of one note.\<close>

definition note_volume :: "TTiming \<Rightarrow> u32 \<Rightarrow> CMIDIMonitor \<Rightarrow> nat \<Rightarrow> nat \<Rightarrow> real" where
  "note_volume T nTicks m nChannel nNote =
     (let bIsPercussionChannel = (nChannel = 9);
          NoteState = Notes (m_State m ! nChannel) ! nNote;
          nEnvelope = (if bIsPercussionChannel then ComputePercussionEnvelope T nTicks NoteState
                       else ComputeEnvelope T nTicks NoteState)
      in nEnvelope * (real (unat (nVelocity NoteState)) / 127)
           * (real (unat (nVolume (m_State m ! nChannel))) / 127)
           * (real (unat (nExpression (m_State m ! nChannel))) / 127))"

text \<open>The inner loop over the notes of a channel, followed by the clamp.\<close>

definition channel_volume :: "TTiming \<Rightarrow> u32 \<Rightarrow> CMIDIMonitor \<Rightarrow> nat \<Rightarrow> real" where
  "channel_volume T nTicks m nChannel =
     Utility_Clamp
       (fold (\<lambda>nNote nChannelVolume.
                Utility_Max nChannelVolume (note_volume T nTicks m nChannel nNote))
             [0..<NoteCount] 0)
       0 1"

text \<open>
  The peak level of a channel as it stands after the hold/decay step and before the
  comparison with the channel volume.
\<close>

definition decayed_peak :: "TTiming \<Rightarrow> u32 \<Rightarrow> CMIDIMonitor \<Rightarrow> nat \<Rightarrow> real" where
  "decayed_peak T nTicks m nChannel =
     (let nPeakLevel = m_PeakLevels m ! nChannel;
          nPeakUpdatedMillis = TicksToMillis T (nTicks - m_PeakTimes m ! nChannel)
      in if nPeakUpdatedMillis \<ge> PeakHoldTimeMillis T
         then let nPeakFallMillis = Utility_Max (nPeakUpdatedMillis - PeakHoldTimeMillis T) 0
              in Utility_Clamp (nPeakLevel - nPeakFallMillis / PeakFalloffTimeMillis T) 0 1
         else nPeakLevel)"

text \<open>
  One iteration of the outer loop. The two output arrays are passed in by the caller
  and returned updated, next to the monitor.
\<close>

definition GetChannelLevels_channel ::
  "TTiming \<Rightarrow> u32 \<Rightarrow> nat \<Rightarrow> CMIDIMonitor \<times> real list \<times> real list
     \<Rightarrow> CMIDIMonitor \<times> real list \<times> real list" where
  "GetChannelLevels_channel T nTicks nChannel st =
     (case st of (m, pOutLevels, pOutPeaks) \<Rightarrow>
        let nChannelVolume = channel_volume T nTicks m nChannel;
            nPeakLevel = decayed_peak T nTicks m nChannel
        in if nChannelVolume \<ge> nPeakLevel
           then (m\<lparr>m_PeakLevels := (m_PeakLevels m)[nChannel := nChannelVolume],
                   m_PeakTimes := (m_PeakTimes m)[nChannel := nTicks]\<rparr>,
                 pOutLevels[nChannel := nChannelVolume],
                 pOutPeaks[nChannel := nChannelVolume])
           else (m, pOutLevels[nChannel := nChannelVolume], pOutPeaks[nChannel := nPeakLevel]))"

definition GetChannelLevels ::
  "TTiming \<Rightarrow> u32 \<Rightarrow> real list \<Rightarrow> real list \<Rightarrow> CMIDIMonitor
     \<Rightarrow> CMIDIMonitor \<times> real list \<times> real list" where
  "GetChannelLevels T nTicks pOutLevels pOutPeaks m =
     fold (GetChannelLevels_channel T nTicks) [0..<ChannelCount] (m, pOutLevels, pOutPeaks)"

text \<open>The shape of a monitor object: 16 channels of 128 notes, 16 peak entries.\<close>

definition wf_monitor :: "CMIDIMonitor \<Rightarrow> bool" where
  "wf_monitor m \<longleftrightarrow>
     length (m_State m) = ChannelCount \<and>
     list_all (\<lambda>Channel. length (Notes Channel) = NoteCount) (m_State m) \<and>
     length (m_PeakLevels m) = ChannelCount \<and>
     length (m_PeakTimes m) = ChannelCount"

text \<open>The range the data model gives the stored peak levels.\<close>

definition peaks_in_range :: "CMIDIMonitor \<Rightarrow> bool" where
  "peaks_in_range m \<longleftrightarrow> list_all (\<lambda>p. 0 \<le> p \<and> p \<le> 1) (m_PeakLevels m)"

subsection \<open>Message streams and instances of the parameters\<close>

text \<open>A stream of short messages, each with the tick at which it is handled.\<close>

fun OnShortMessages :: "(u32 \<times> u32) list \<Rightarrow> CMIDIMonitor \<Rightarrow> CMIDIMonitor option" where
  "OnShortMessages [] m = Some m"
| "OnShortMessages (e # es) m =
     (case OnShortMessage (fst e) (snd e) m of
        None \<Rightarrow> None
      | Some m' \<Rightarrow> OnShortMessages es m')"

definition note_at :: "CMIDIMonitor \<Rightarrow> nat \<Rightarrow> nat \<Rightarrow> TNoteState" where
  "note_at m nChannel nNote = Notes (m_State m ! nChannel) ! nNote"

definition out_levels :: "CMIDIMonitor \<times> real list \<times> real list \<Rightarrow> real list" where
  "out_levels r = fst (snd r)"

definition out_peaks :: "CMIDIMonitor \<times> real list \<times> real list \<Rightarrow> real list" where
  "out_peaks r = snd (snd r)"

text \<open>
  One instance of the timing parameters, used where the model is run on concrete input:
  a tick counter of 1 MHz read in whole milliseconds, a release of 1000 ms, a peak hold of
  2000 ms and a peak fall-off of 1000 ms.
\<close>

definition TicksToMillis_1MHz :: "u32 \<Rightarrow> real" where
  "TicksToMillis_1MHz nTicks = real (unat (nTicks div 1000))"

definition Timing_1MHz :: TTiming where
  "Timing_1MHz =
     \<lparr>TicksToMillis = TicksToMillis_1MHz,
      DecayReleaseTimeMillis = 1000,
      PeakHoldTimeMillis = 2000,
      PeakFalloffTimeMillis = 1000\<rparr>"

definition MillisToTicks_1MHz :: "u32 \<Rightarrow> u32" where
  "MillisToTicks_1MHz nMillis = nMillis * 1000"

text \<open>The two output arrays a caller passes to \<open>GetChannelLevels\<close>.\<close>

definition out_buffer :: "real list" where
  "out_buffer = replicate ChannelCount 0"

text \<open>
  A monitoring session: each step handles a list of short messages and then queries the
  levels at a tick, every query with the caller's two arrays. The results of the queries
  are collected in order.
\<close>

fun GetChannelLevels_session ::
  "TTiming \<Rightarrow> real list \<Rightarrow> real list \<Rightarrow> ((u32 \<times> u32) list \<times> u32) list \<Rightarrow> CMIDIMonitor
     \<Rightarrow> (CMIDIMonitor \<times> real list \<times> real list) list option" where
  "GetChannelLevels_session T ls ps [] m = Some []"
| "GetChannelLevels_session T ls ps (s # steps) m =
     (case OnShortMessages (fst s) m of
        None \<Rightarrow> None
      | Some m' \<Rightarrow>
          (case GetChannelLevels_session T ls ps steps
                  (fst (GetChannelLevels T (snd s) ls ps m')) of
             None \<Rightarrow> None
           | Some rs \<Rightarrow> Some (GetChannelLevels T (snd s) ls ps m' # rs)))"

text \<open>
  A session run on concrete input: a note is switched on at tick 5 (channel 0, note 60,
  velocity 127) and the levels are queried at tick 1000; then an All Notes Off at tick 2000
  silences the channel and the levels are queried 1.5 s, 2.501 s and 2.751 s after the start.
\<close>

definition held_note_monitor :: CMIDIMonitor where
  "held_note_monitor = the (OnShortMessage 0x7F3C90 5 CMIDIMonitor_new)"

definition peak_example_steps :: "((u32 \<times> u32) list \<times> u32) list" where
  "peak_example_steps = [([(0x007BB0, 2000)], 1500000), ([], 2501000), ([], 2751000)]"

definition peak_example_results :: "(CMIDIMonitor \<times> real list \<times> real list) list" where
  "peak_example_results =
     the (GetChannelLevels_session Timing_1MHz out_buffer out_buffer peak_example_steps
            (fst (GetChannelLevels Timing_1MHz 1000 out_buffer out_buffer held_note_monitor)))"


text \<open>
  The envelope of a percussion note in the words of the specification (claim C9): for a
  Note-On at tick \<open>t\<close> and a query at tick \<open>q\<close> it is
  \<open>ease(max(1 - elapsedMs / decayReleaseTimeMillis, 0))\<close> with
  \<open>elapsedMs = min(millis(q - t), decayReleaseTimeMillis)\<close>.
\<close>

definition spec_percussion_envelope :: "TTiming \<Rightarrow> u32 \<Rightarrow> u32 \<Rightarrow> real" where
  "spec_percussion_envelope T t q =
     (let elapsedMs = min (TicksToMillis T (q - t)) (DecayReleaseTimeMillis T)
      in EaseFunction (max (1 - elapsedMs / DecayReleaseTimeMillis T) 0))"

section \<open>The overlay state machine (lcd/ui.cpp)\<close>

datatype TState =
    TState_None
  | DisplayingMessage
  | DisplayingSpinnerMessage
  | DisplayingImage
  | EnteringPowerSavingMode
  | InPowerSavingMode

text \<open>
  Modelled from the spec: the display surface \<open>CLCD\<close> and the image identifiers \<open>TImage\<close>
  are declared in lcd/lcd.h, which is not part of the sources. The surface has a kind,
  dimensions and a backlight; the calls made on its drawing primitives are recorded in
  the order they are issued.
\<close>

datatype TImage = TImage_None | TImage_Id nat

datatype TType = Character | Graphical

datatype TLCDCall = Print string nat nat bool | DrawImage TImage

record CLCD =
  lcd_Type :: TType
  lcd_Width :: u8
  lcd_Height :: u8
  lcd_BacklightEnabled :: bool
  lcd_Calls :: "TLCDCall list"

definition SetBacklightEnabled :: "bool \<Rightarrow> CLCD \<Rightarrow> CLCD" where
  "SetBacklightEnabled bEnabled LCD = LCD\<lparr>lcd_BacklightEnabled := bEnabled\<rparr>"

definition lcd_call :: "TLCDCall \<Rightarrow> CLCD \<Rightarrow> CLCD" where
  "lcd_call c LCD = LCD\<lparr>lcd_Calls := lcd_Calls LCD @ [c]\<rparr>"

record CUserInterface =
  m_State_ui :: TState
  m_nStateTime :: u32
  m_nCurrentSpinnerChar :: nat
  m_CurrentImage :: TImage
  m_SystemMessageTextBuffer :: string

definition SystemMessageTextBufferSize :: nat where
  "SystemMessageTextBufferSize = 20 + 1"

definition SystemMessageDisplayTimeMillis :: u32 where
  "SystemMessageDisplayTimeMillis = 3000"

definition SystemMessageSpinnerTimeMillis :: u32 where
  "SystemMessageSpinnerTimeMillis = 32"

definition SpinnerChars :: string where
  "SpinnerChars =
     [CHR ''_'', CHR ''_'', CHR ''_'', CHR ''-'', CHR 0x27, CHR 0x27, CHR ''^'', CHR ''^'',
      CHR 0x60, CHR 0x60, CHR ''-'', CHR ''_'', CHR ''_'', CHR ''_'']"

definition CUserInterface_new :: CUserInterface where
  "CUserInterface_new =
     \<lparr>m_State_ui = TState_None,
      m_nStateTime = 0,
      m_nCurrentSpinnerChar = 0,
      m_CurrentImage = TImage_None,
      m_SystemMessageTextBuffer = replicate SystemMessageTextBufferSize (CHR 0x00)\<rparr>"

text \<open>
  \<open>snprintf(buffer, sizeof(buffer), ...)\<close> with the already formatted text \<open>s\<close>: at most
  size - 1 characters are stored, then the terminator; the rest of the array is untouched.
\<close>

definition snprintf_into :: "string \<Rightarrow> string \<Rightarrow> string" where
  "snprintf_into buffer s =
     (let t = take (length buffer - 1) s
      in t @ [CHR 0x00] @ drop (length t + 1) buffer)"

text \<open>The conversion \<open>%-*.*s\<close> with width and precision \<open>n\<close>: cut to \<open>n\<close>, pad on the right.\<close>

definition left_justified :: "nat \<Rightarrow> string \<Rightarrow> string" where
  "left_justified n s = take n s @ replicate (n - length (take n s)) (CHR '' '')"

text \<open>The text a \<open>char*\<close> denotes: the characters before the first terminator.\<close>

definition c_str :: "string \<Rightarrow> string" where
  "c_str buffer = takeWhile (\<lambda>c. c \<noteq> CHR 0x00) buffer"

text \<open>
  Without the spinner the message itself is the format string of \<open>snprintf\<close>, and no
  argument follows it. Ordinary characters are copied and \<open>%%\<close> is stored as \<open>%\<close>.
  Any other conversion specification would fetch an argument that was not passed, which
  the language leaves undefined: the formatted text is \<open>None\<close> there.
\<close>

fun format_without_arguments :: "string \<Rightarrow> string option" where
  "format_without_arguments [] = Some []"
| "format_without_arguments [c] = (if c = CHR ''%'' then None else Some [c])"
| "format_without_arguments (c # d # ds) =
     (if c = CHR ''%''
      then (if d = CHR ''%''
            then map_option ((#) (CHR ''%'')) (format_without_arguments ds)
            else None)
      else map_option ((#) c) (format_without_arguments (d # ds)))"

text \<open>
  What an undefined call of \<open>snprintf\<close> leaves in the array is not determined by the
  sources; it is the input \<open>undefinedBuffer\<close> of the model. The state and the state time
  are assigned after the call, whatever the message.
\<close>

definition ShowSystemMessage ::
  "string \<Rightarrow> string \<Rightarrow> bool \<Rightarrow> u32 \<Rightarrow> CUserInterface \<Rightarrow> CUserInterface" where
  "ShowSystemMessage undefinedBuffer pMessage bSpinner nTicks ui =
     (let ui =
        (if bSpinner
         then let nMaxMessageLen = SystemMessageTextBufferSize - 3
              in ui\<lparr>m_SystemMessageTextBuffer :=
                      snprintf_into (m_SystemMessageTextBuffer ui)
                        (left_justified nMaxMessageLen pMessage @ '' '' @ [SpinnerChars ! 0]),
                    m_State_ui := DisplayingSpinnerMessage,
                    m_nCurrentSpinnerChar := 0\<rparr>
         else ui\<lparr>m_SystemMessageTextBuffer :=
                   (case format_without_arguments pMessage of
                      Some formatted \<Rightarrow> snprintf_into (m_SystemMessageTextBuffer ui) formatted
                    | None \<Rightarrow> undefinedBuffer),
                 m_State_ui := DisplayingMessage\<rparr>)
      in ui\<lparr>m_nStateTime := nTicks\<rparr>)"

definition DisplayImage :: "TImage \<Rightarrow> u32 \<Rightarrow> CUserInterface \<Rightarrow> CUserInterface" where
  "DisplayImage img nTicks ui =
     ui\<lparr>m_CurrentImage := img, m_State_ui := DisplayingImage, m_nStateTime := nTicks\<rparr>"

definition DrawSystemState :: "CLCD \<Rightarrow> CUserInterface \<Rightarrow> CLCD" where
  "DrawSystemState LCD ui =
     (let nHeight = lcd_Height LCD;
          pText = c_str (m_SystemMessageTextBuffer ui)
      in if lcd_Type LCD = Graphical
         then (if m_State_ui ui = DisplayingImage then lcd_call (DrawImage (m_CurrentImage ui)) LCD
               else let nMessageRow = (if nHeight = 32 then 0 else 1)
                    in lcd_call (Print pText 0 nMessageRow True) LCD)
         else (if m_State_ui ui \<noteq> DisplayingImage
               then (if nHeight = 2
                     then lcd_call (Print [] 0 1 True) (lcd_call (Print pText 0 0 True) LCD)
                     else if nHeight = 4
                     then lcd_call (Print [] 0 3 True)
                            (lcd_call (Print [] 0 2 True)
                               (lcd_call (Print pText 0 1 True)
                                  (lcd_call (Print [] 0 0 True) LCD)))
                     else LCD)
               else LCD))"

text \<open>
  \<open>Utility::MillisToTicks\<close> belongs to the absent utility.h and is a parameter. The first
  part of \<open>Update\<close> is the chain of timeouts, the second the drawing of the overlay.
\<close>

definition Update_timeouts ::
  "(u32 \<Rightarrow> u32) \<Rightarrow> CLCD \<Rightarrow> u32 \<Rightarrow> CUserInterface \<Rightarrow> CUserInterface \<times> CLCD" where
  "Update_timeouts MillisToTicks LCD nTicks ui =
     (let nDeltaTicks = nTicks - m_nStateTime ui
      in if m_State_ui ui = DisplayingMessage
            \<and> nDeltaTicks \<ge> MillisToTicks SystemMessageDisplayTimeMillis
           then (ui\<lparr>m_State_ui := TState_None, m_nStateTime := nTicks\<rparr>, LCD)
         else if m_State_ui ui = DisplayingSpinnerMessage
            \<and> nDeltaTicks \<ge> MillisToTicks SystemMessageSpinnerTimeMillis
           then let nCurrentSpinnerChar = (m_nCurrentSpinnerChar ui + 1) mod length SpinnerChars
                in (ui\<lparr>m_nCurrentSpinnerChar := nCurrentSpinnerChar,
                       m_SystemMessageTextBuffer :=
                         (m_SystemMessageTextBuffer ui)
                           [SystemMessageTextBufferSize - 2 := SpinnerChars ! nCurrentSpinnerChar],
                       m_nStateTime := nTicks\<rparr>, LCD)
         else if m_State_ui ui = DisplayingImage
            \<and> nDeltaTicks \<ge> MillisToTicks SystemMessageDisplayTimeMillis
           then (ui\<lparr>m_State_ui := TState_None, m_nStateTime := nTicks\<rparr>, LCD)
         else if m_State_ui ui = EnteringPowerSavingMode
            \<and> nDeltaTicks \<ge> MillisToTicks SystemMessageDisplayTimeMillis
           then (ui\<lparr>m_State_ui := InPowerSavingMode, m_nStateTime := nTicks\<rparr>,
                 SetBacklightEnabled False LCD)
         else (ui, LCD))"

definition Update ::
  "(u32 \<Rightarrow> u32) \<Rightarrow> CLCD \<Rightarrow> u32 \<Rightarrow> CUserInterface \<Rightarrow> CUserInterface \<times> CLCD" where
  "Update MillisToTicks LCD nTicks ui =
     (case Update_timeouts MillisToTicks LCD nTicks ui of (ui, LCD) \<Rightarrow>
        if m_State_ui ui \<noteq> TState_None then (ui, DrawSystemState LCD ui) else (ui, LCD))"

text \<open>A graphical display of 128 by 32 pixels with the backlight on, for concrete runs.\<close>

definition CLCD_graphical :: CLCD where
  "CLCD_graphical =
     \<lparr>lcd_Type = Graphical, lcd_Width = 128, lcd_Height = 32,
      lcd_BacklightEnabled = True, lcd_Calls = []\<rparr>"

section \<open>Properties of the MIDI monitor\<close>

subsection \<open>Decoding\<close>

lemmas msg_defs = msg_status_def msg_channel_def msg_data1_def msg_data2_def

lemmas run_defs =
  OnShortMessage_def msg_defs update_note_def update_channel_def ProcessCC_def
  CMIDIMonitor_new_def AllNotesOff_def ResetControllers_def ChannelCount_def NoteCount_def
  note_at_def

lemma msg_status_low_bit: "\<not> bit (msg_status nMessage) 0"
  by (simp add: msg_status_def bit_simps)

lemma msg_status_not_FF: "msg_status nMessage \<noteq> 0xFF"
proof
  assume "msg_status nMessage = 0xFF"
  then have "bit (msg_status nMessage) 0" by simp
  then show False by (simp add: msg_status_low_bit)
qed

lemma msg_status_bit6: "bit (msg_status nMessage) 6 \<longleftrightarrow> bit nMessage 6"
  by (simp add: msg_status_def bit_simps)

lemma status_byte_FF_bit6:
  assumes "nMessage AND 0xFF = (0xFF :: u32)"
  shows "bit nMessage 6"
proof -
  have "bit (nMessage AND 0xFF) 6 \<longleftrightarrow> bit (0xFF :: u32) 6"
    using assms by simp
  then show ?thesis by (simp add: bit_simps)
qed


subsection \<open>Well-formedness is preserved\<close>

lemma wf_monitor_new: "wf_monitor CMIDIMonitor_new"
  by (simp add: wf_monitor_def CMIDIMonitor_new_def AllNotesOff_def ResetControllers_def
      list_all_length)

lemma wf_AllNotesOff: "wf_monitor m \<Longrightarrow> wf_monitor (AllNotesOff m)"
  by (simp add: wf_monitor_def AllNotesOff_def list_all_length)

lemma wf_ResetControllers: "wf_monitor m \<Longrightarrow> wf_monitor (ResetControllers b m)"
  by (simp add: wf_monitor_def ResetControllers_def list_all_length Let_def)

lemma wf_update_channel:
  assumes wf: "wf_monitor m" and f: "\<And>s. Notes (f s) = Notes s"
  shows "wf_monitor (update_channel c f m)"
proof -
  have "length (Notes ((m_State m)[unat c := f (m_State m ! unat c)] ! n)) = NoteCount"
    if "n < ChannelCount" for n
  proof (cases "unat c = n")
    case True
    with wf that show ?thesis by (simp add: wf_monitor_def list_all_length f)
  next
    case False
    with wf that show ?thesis by (simp add: wf_monitor_def list_all_length)
  qed
  with wf show ?thesis
    by (simp add: wf_monitor_def update_channel_def list_all_length)
qed

lemma wf_ProcessCC: "wf_monitor m \<Longrightarrow> wf_monitor (ProcessCC c cc v m)"
  by (simp add: ProcessCC_def wf_AllNotesOff wf_ResetControllers wf_update_channel)

lemma wf_update_note: "wf_monitor m \<Longrightarrow> update_note c n f m = Some m' \<Longrightarrow> wf_monitor m'"
  by (auto simp add: wf_monitor_def update_note_def list_all_length nth_list_update Let_def
      split: if_splits)

lemma wf_OnShortMessage:
  "wf_monitor m \<Longrightarrow> OnShortMessage nMessage nTicks m = Some m' \<Longrightarrow> wf_monitor m'"
  by (auto simp add: OnShortMessage_def Let_def wf_ProcessCC wf_AllNotesOff wf_ResetControllers
      split: if_splits dest: wf_update_note)

lemma wf_OnShortMessages:
  "wf_monitor m \<Longrightarrow> OnShortMessages es m = Some m' \<Longrightarrow> wf_monitor m'"
proof (induction es arbitrary: m)
  case Nil
  then show ?case by simp
next
  case (Cons e es)
  then show ?case
    by (auto split: option.splits dest: wf_OnShortMessage)
qed

lemma wf_the_OnShortMessages:
  "wf_monitor m \<Longrightarrow> OnShortMessages es m \<noteq> None \<Longrightarrow> wf_monitor (the (OnShortMessages es m))"
  by (auto dest: wf_OnShortMessages)

subsection \<open>What the reset operations do to a channel\<close>

lemma note_at_AllNotesOff:
  "wf_monitor m \<Longrightarrow> c < ChannelCount \<Longrightarrow> n < NoteCount \<Longrightarrow>
   note_at (AllNotesOff m) c n = \<lparr>nNoteOnTime = 0, nNoteOffTime = 0, nVelocity = 0\<rparr>"
  by (simp add: note_at_def AllNotesOff_def wf_monitor_def list_all_length)

lemma controllers_AllNotesOff:
  "c < length (m_State m) \<Longrightarrow>
   nVolume (m_State (AllNotesOff m) ! c) = nVolume (m_State m ! c) \<and>
   nPan (m_State (AllNotesOff m) ! c) = nPan (m_State m ! c) \<and>
   nExpression (m_State (AllNotesOff m) ! c) = nExpression (m_State m ! c)"
  by (simp add: AllNotesOff_def)

lemma peaks_AllNotesOff:
  "m_PeakLevels (AllNotesOff m) = m_PeakLevels m \<and> m_PeakTimes (AllNotesOff m) = m_PeakTimes m"
  by (simp add: AllNotesOff_def)

lemma ResetControllers_True_channel:
  "c < length (m_State m) \<Longrightarrow>
   nExpression (m_State (ResetControllers True m) ! c) = 127 \<and>
   nVolume (m_State (ResetControllers True m) ! c) = nVolume (m_State m ! c) \<and>
   nPan (m_State (ResetControllers True m) ! c) = nPan (m_State m ! c) \<and>
   Notes (m_State (ResetControllers True m) ! c) = Notes (m_State m ! c)"
  by (simp add: ResetControllers_def)

lemma peaks_ResetControllers:
  "m_PeakLevels (ResetControllers b m) = m_PeakLevels m \<and>
   m_PeakTimes (ResetControllers b m) = m_PeakTimes m"
  by (simp add: ResetControllers_def)

lemma note_at_update_note:
  assumes "wf_monitor m" and "update_note c n f m = Some m'"
  shows "note_at m' (unat c) (unat n) = f (note_at m (unat c) (unat n))"
proof -
  from assms(2) have n: "unat n < NoteCount" and c: "unat c < length (m_State m)"
    by (auto simp add: update_note_def split: if_splits)
  from assms(1) c have "length (Notes (m_State m ! unat c)) = NoteCount"
    by (simp add: wf_monitor_def list_all_length)
  with assms(2) n c show ?thesis
    by (auto simp add: update_note_def note_at_def Let_def)
qed

lemma update_note_Some:
  assumes "wf_monitor m" and "unat n < NoteCount" and "unat c < ChannelCount"
  shows "\<exists>m'. update_note c n f m = Some m'"
  using assms by (simp add: update_note_def wf_monitor_def Let_def)

lemma example_note_on_runs:
  "OnShortMessages [(0x7F3C91, 5)] CMIDIMonitor_new \<noteq> None"
  "OnShortMessages [(0x7F3C90, 5)] CMIDIMonitor_new \<noteq> None"
  "OnShortMessages [(0x320BB1, 5)] CMIDIMonitor_new \<noteq> None"
  by (simp_all add: run_defs)

subsection \<open>System Reset\<close>

text \<open>
  Claim C1. A short message whose status byte is 0xFF (System Reset) should clear every
  note of every channel and reset volume, pan and expression of every channel. The
  dispatch masks the status byte with 0xF0 before it is compared, so the label 0xFF is
  never met: for every such message the monitor is returned as it was.
\<close>

theorem system_reset_message_changes_nothing:
  assumes "nMessage AND 0xFF = 0xFF"
  shows "OnShortMessage nMessage nTicks m = Some m"
proof -
  have b: "bit (msg_status nMessage) 6"
    using assms by (simp add: msg_status_bit6 status_byte_FF_bit6)
  have "msg_status nMessage \<noteq> 0x80" "msg_status nMessage \<noteq> 0x90" "msg_status nMessage \<noteq> 0xB0"
    using b by auto
  then show ?thesis
    by (simp add: OnShortMessage_def msg_status_not_FF)
qed

theorem system_reset_message_changes_nothing_witness:
  "(0xFF :: u32) AND 0xFF = 0xFF \<and>
   OnShortMessage 0xFF 7 (the (OnShortMessages [(0x7F3C90, 5)] CMIDIMonitor_new))
     = Some (the (OnShortMessages [(0x7F3C90, 5)] CMIDIMonitor_new)) \<and>
   note_at (the (OnShortMessages [(0x7F3C90, 5)] CMIDIMonitor_new)) 0 60
     = \<lparr>nNoteOnTime = 5, nNoteOffTime = 0, nVelocity = 0x7F\<rparr>"
proof -
  have h: "(0xFF :: u32) AND 0xFF = 0xFF" by simp
  have n: "note_at (the (OnShortMessages [(0x7F3C90, 5)] CMIDIMonitor_new)) 0 60
             = \<lparr>nNoteOnTime = 5, nNoteOffTime = 0, nVelocity = 0x7F\<rparr>"
    by (simp add: run_defs)
  show ?thesis
    by (intro conjI h n system_reset_message_changes_nothing [OF h])
qed

subsection \<open>Channel mode messages\<close>

text \<open>
  Claim C2, counterexample. A note is switched on on channel 1 (message 0x7F3C91 at tick 5);
  an All Notes Off (controller 123) on channel 0 then clears that note of channel 1, so the
  note state of the other channels is not left unchanged.
\<close>

theorem all_notes_off_cc_other_channel_counterexample:
  "note_at (the (OnShortMessages [(0x7F3C91, 5)] CMIDIMonitor_new)) 1 60
     = \<lparr>nNoteOnTime = 5, nNoteOffTime = 0, nVelocity = 0x7F\<rparr> \<and>
   note_at (the (OnShortMessages [(0x7F3C91, 5), (0x007BB0, 6)] CMIDIMonitor_new)) 1 60
     = \<lparr>nNoteOnTime = 0, nNoteOffTime = 0, nVelocity = 0\<rparr>"
  by (simp add: run_defs)

text \<open>
  Claim C2, amended. A Control Change with controller 120, 123, 124, 125, 126 or 127 on any
  channel clears on-time, off-time and velocity of all 128 notes of all 16 channels, the
  addressed one included; volume, pan and expression of every channel stay as they were.
\<close>

theorem all_notes_off_cc_clears_all_channels:
  assumes "wf_monitor m"
    and "msg_status nMessage = 0xB0"
    and "msg_data1 nMessage \<in> {120, 123, 124, 125, 126, 127}"
  shows "\<exists>m'. OnShortMessage nMessage nTicks m = Some m' \<and>
           (\<forall>c < ChannelCount.
              (\<forall>n < NoteCount.
                 note_at m' c n = \<lparr>nNoteOnTime = 0, nNoteOffTime = 0, nVelocity = 0\<rparr>) \<and>
              nVolume (m_State m' ! c) = nVolume (m_State m ! c) \<and>
              nPan (m_State m' ! c) = nPan (m_State m ! c) \<and>
              nExpression (m_State m' ! c) = nExpression (m_State m ! c))"
proof -
  have "ProcessCC (msg_channel nMessage) (msg_data1 nMessage) (msg_data2 nMessage) m
          = AllNotesOff m"
    using assms(3) by (auto simp add: ProcessCC_def)
  then have "OnShortMessage nMessage nTicks m = Some (AllNotesOff m)"
    using assms(2) by (simp add: OnShortMessage_def)
  moreover have "length (m_State m) = ChannelCount"
    using assms(1) by (simp add: wf_monitor_def)
  ultimately show ?thesis
    using assms(1) by (simp add: note_at_AllNotesOff controllers_AllNotesOff)
qed

theorem all_notes_off_cc_clears_all_channels_witness:
  "wf_monitor (the (OnShortMessages [(0x7F3C91, 5)] CMIDIMonitor_new)) \<and>
   msg_status 0x007BB0 = 0xB0 \<and>
   msg_data1 0x007BB0 \<in> {120, 123, 124, 125, 126, 127} \<and>
   (1::nat) < ChannelCount \<and> (60::nat) < NoteCount \<and>
   (\<exists>m'. OnShortMessage 0x007BB0 6 (the (OnShortMessages [(0x7F3C91, 5)] CMIDIMonitor_new)) = Some m' \<and>
      note_at m' 1 60 = \<lparr>nNoteOnTime = 0, nNoteOffTime = 0, nVelocity = 0\<rparr> \<and>
      nVolume (m_State m' ! 1) = nVolume (m_State (the (OnShortMessages [(0x7F3C91, 5)] CMIDIMonitor_new)) ! 1) \<and>
      nPan (m_State m' ! 1) = nPan (m_State (the (OnShortMessages [(0x7F3C91, 5)] CMIDIMonitor_new)) ! 1) \<and>
      nExpression (m_State m' ! 1) = nExpression (m_State (the (OnShortMessages [(0x7F3C91, 5)] CMIDIMonitor_new)) ! 1))"
proof -
  have h1: "wf_monitor (the (OnShortMessages [(0x7F3C91, 5)] CMIDIMonitor_new))"
    by (rule wf_the_OnShortMessages [OF wf_monitor_new example_note_on_runs(1)])
  have h2: "msg_status 0x007BB0 = 0xB0"
    by (simp add: msg_defs)
  have h3: "msg_data1 0x007BB0 \<in> {120, 123, 124, 125, 126, 127}"
    by (simp add: msg_defs)
  have c: "(1::nat) < ChannelCount" and n: "(60::nat) < NoteCount"
    by (simp_all add: ChannelCount_def NoteCount_def)
  from all_notes_off_cc_clears_all_channels [OF h1 h2 h3, of 6] h1 h2 h3 c n
  show ?thesis
    by blast
qed

text \<open>
  Claim C3, counterexample. Channel 1 receives expression 50 (message 0x320BB1); a Reset All
  Controllers (controller 121) on channel 0 then puts the expression of channel 1 back
  to 127, so the expression of the other channels is not left unchanged.
\<close>

theorem reset_all_controllers_other_channel_counterexample:
  "nExpression (m_State (the (OnShortMessages [(0x320BB1, 5)] CMIDIMonitor_new)) ! 1) = 50 \<and>
   nExpression
     (m_State (the (OnShortMessages [(0x320BB1, 5), (0x0079B0, 6)] CMIDIMonitor_new)) ! 1) = 127"
  by (simp add: run_defs)

text \<open>
  Claim C3, amended. A Control Change with controller 121 (Reset All Controllers) on any
  channel sets the expression of every one of the 16 channels to 127 and leaves volume and
  pan of every channel unchanged.
\<close>

theorem reset_all_controllers_cc_all_channels:
  assumes "wf_monitor m"
    and "msg_status nMessage = 0xB0"
    and "msg_data1 nMessage = 121"
  shows "\<exists>m'. OnShortMessage nMessage nTicks m = Some m' \<and>
           (\<forall>c < ChannelCount.
              nExpression (m_State m' ! c) = 127 \<and>
              nVolume (m_State m' ! c) = nVolume (m_State m ! c) \<and>
              nPan (m_State m' ! c) = nPan (m_State m ! c))"
proof -
  have "ProcessCC (msg_channel nMessage) (msg_data1 nMessage) (msg_data2 nMessage) m
          = ResetControllers True m"
    using assms(3) by (simp add: ProcessCC_def)
  then have "OnShortMessage nMessage nTicks m = Some (ResetControllers True m)"
    using assms(2) by (simp add: OnShortMessage_def)
  moreover have "length (m_State m) = ChannelCount"
    using assms(1) by (simp add: wf_monitor_def)
  ultimately show ?thesis
    by (simp add: ResetControllers_True_channel)
qed

theorem reset_all_controllers_cc_all_channels_witness:
  "wf_monitor (the (OnShortMessages [(0x320BB1, 5)] CMIDIMonitor_new)) \<and>
   msg_status 0x0079B0 = 0xB0 \<and>
   msg_data1 0x0079B0 = 121 \<and>
   (1::nat) < ChannelCount \<and>
   (\<exists>m'. OnShortMessage 0x0079B0 6 (the (OnShortMessages [(0x320BB1, 5)] CMIDIMonitor_new)) = Some m' \<and>
      nExpression (m_State m' ! 1) = 127 \<and>
      nVolume (m_State m' ! 1) = nVolume (m_State (the (OnShortMessages [(0x320BB1, 5)] CMIDIMonitor_new)) ! 1) \<and>
      nPan (m_State m' ! 1) = nPan (m_State (the (OnShortMessages [(0x320BB1, 5)] CMIDIMonitor_new)) ! 1))"
proof -
  have h1: "wf_monitor (the (OnShortMessages [(0x320BB1, 5)] CMIDIMonitor_new))"
    by (rule wf_the_OnShortMessages [OF wf_monitor_new example_note_on_runs(3)])
  have h2: "msg_status 0x0079B0 = 0xB0"
    by (simp add: msg_defs)
  have h3: "msg_data1 0x0079B0 = 121"
    by (simp add: msg_defs)
  have c: "(1::nat) < ChannelCount"
    by (simp add: ChannelCount_def)
  from reset_all_controllers_cc_all_channels [OF h1 h2 h3, of 6] h1 h2 h3 c
  show ?thesis
    by blast
qed

subsection \<open>The query loop\<close>

lemma Utility_Max_eq: "Utility_Max a b = max a b"
  by (auto simp add: Utility_Max_def max_def)

lemma Utility_Min_eq: "Utility_Min a b = min a b"
  by (auto simp add: Utility_Min_def min_def)

lemma Utility_Clamp_unit: "Utility_Clamp x 0 (1::real) = max 0 (min 1 x)"
  by (auto simp add: Utility_Clamp_def max_def min_def)

lemma Utility_Clamp_range: "0 \<le> Utility_Clamp x 0 (1::real) \<and> Utility_Clamp x 0 (1::real) \<le> 1"
  by (simp add: Utility_Clamp_def)

lemma channel_volume_range: "0 \<le> channel_volume T q m c \<and> channel_volume T q m c \<le> 1"
  unfolding channel_volume_def by (rule Utility_Clamp_range)

lemma channel_volume_cong:
  "m_State m1 = m_State m2 \<Longrightarrow> channel_volume T q m1 c = channel_volume T q m2 c"
  by (simp add: channel_volume_def note_volume_def)

lemma decayed_peak_cong:
  "m_PeakLevels m1 ! c = m_PeakLevels m2 ! c \<Longrightarrow> m_PeakTimes m1 ! c = m_PeakTimes m2 ! c \<Longrightarrow>
   decayed_peak T q m1 c = decayed_peak T q m2 c"
  by (simp add: decayed_peak_def)

lemma GetChannelLevels_loop:
  assumes "fold (GetChannelLevels_channel T q) [0..<n] (m, ls, ps) = (m', ls', ps')"
    and "n \<le> length ls" and "n \<le> length ps"
    and "n \<le> length (m_PeakLevels m)" and "n \<le> length (m_PeakTimes m)"
  shows "m_State m' = m_State m \<and>
         length ls' = length ls \<and> length ps' = length ps \<and>
         length (m_PeakLevels m') = length (m_PeakLevels m) \<and>
         length (m_PeakTimes m') = length (m_PeakTimes m) \<and>
         (\<forall>c<n. ls' ! c = channel_volume T q m c \<and>
                 ps' ! c = max (channel_volume T q m c) (decayed_peak T q m c) \<and>
                 m_PeakLevels m' ! c =
                   (if decayed_peak T q m c \<le> channel_volume T q m c
                    then channel_volume T q m c else m_PeakLevels m ! c) \<and>
                 m_PeakTimes m' ! c =
                   (if decayed_peak T q m c \<le> channel_volume T q m c
                    then q else m_PeakTimes m ! c)) \<and>
         (\<forall>c\<ge>n. m_PeakLevels m' ! c = m_PeakLevels m ! c \<and>
                 m_PeakTimes m' ! c = m_PeakTimes m ! c)"
  using assms
proof (induction n arbitrary: m' ls' ps')
  case 0
  then show ?case by simp
next
  case (Suc n)
  obtain m1 ls1 ps1
    where r1: "fold (GetChannelLevels_channel T q) [0..<n] (m, ls, ps) = (m1, ls1, ps1)"
    by (metis prod_cases3)
  from Suc.prems have len: "n \<le> length ls" "n \<le> length ps"
    "n \<le> length (m_PeakLevels m)" "n \<le> length (m_PeakTimes m)"
    by simp_all
  note ih = Suc.IH [OF r1 len]
  have v: "channel_volume T q m1 n = channel_volume T q m n"
    by (rule channel_volume_cong) (simp add: ih)
  have d: "decayed_peak T q m1 n = decayed_peak T q m n"
    by (rule decayed_peak_cong) (simp_all add: ih)
  have step: "GetChannelLevels_channel T q n (m1, ls1, ps1) = (m', ls', ps')"
    using Suc.prems(1) r1 by simp
  show ?case
  proof (cases "decayed_peak T q m n \<le> channel_volume T q m n")
    case True
    with step v d have
      "m' = m1\<lparr>m_PeakLevels := (m_PeakLevels m1)[n := channel_volume T q m n],
               m_PeakTimes := (m_PeakTimes m1)[n := q]\<rparr>"
      "ls' = ls1[n := channel_volume T q m n]" "ps' = ps1[n := channel_volume T q m n]"
      by (auto simp add: GetChannelLevels_channel_def Let_def)
    with ih Suc.prems True show ?thesis
      by (auto simp add: nth_list_update less_Suc_eq max_def)
  next
    case False
    with step v d have
      "m' = m1" "ls' = ls1[n := channel_volume T q m n]" "ps' = ps1[n := decayed_peak T q m n]"
      by (auto simp add: GetChannelLevels_channel_def Let_def)
    with ih Suc.prems False show ?thesis
      by (auto simp add: nth_list_update less_Suc_eq max_def)
  qed
qed


lemma GetChannelLevels_channel_facts:
  assumes "wf_monitor m" and "length ls = ChannelCount" and "length ps = ChannelCount"
    and "c < ChannelCount"
  shows "out_levels (GetChannelLevels T q ls ps m) ! c = channel_volume T q m c"
    and "out_peaks (GetChannelLevels T q ls ps m) ! c
           = max (channel_volume T q m c) (decayed_peak T q m c)"
    and "m_PeakLevels (fst (GetChannelLevels T q ls ps m)) ! c
           = (if decayed_peak T q m c \<le> channel_volume T q m c
              then channel_volume T q m c else m_PeakLevels m ! c)"
    and "m_PeakTimes (fst (GetChannelLevels T q ls ps m)) ! c
           = (if decayed_peak T q m c \<le> channel_volume T q m c
              then q else m_PeakTimes m ! c)"
proof -
  obtain m' ls' ps' where r: "GetChannelLevels T q ls ps m = (m', ls', ps')"
    by (metis prod_cases3)
  then have f: "fold (GetChannelLevels_channel T q) [0..<ChannelCount] (m, ls, ps) = (m', ls', ps')"
    by (simp add: GetChannelLevels_def)
  have len: "ChannelCount \<le> length ls" "ChannelCount \<le> length ps"
    "ChannelCount \<le> length (m_PeakLevels m)" "ChannelCount \<le> length (m_PeakTimes m)"
    using assms by (simp_all add: wf_monitor_def)
  note L = GetChannelLevels_loop [OF f len]
  show "out_levels (GetChannelLevels T q ls ps m) ! c = channel_volume T q m c"
    using L assms(4) by (simp add: r out_levels_def)
  show "out_peaks (GetChannelLevels T q ls ps m) ! c
           = max (channel_volume T q m c) (decayed_peak T q m c)"
    using L assms(4) by (simp add: r out_peaks_def)
  show "m_PeakLevels (fst (GetChannelLevels T q ls ps m)) ! c
           = (if decayed_peak T q m c \<le> channel_volume T q m c
              then channel_volume T q m c else m_PeakLevels m ! c)"
    using L assms(4) by (simp add: r)
  show "m_PeakTimes (fst (GetChannelLevels T q ls ps m)) ! c
           = (if decayed_peak T q m c \<le> channel_volume T q m c
              then q else m_PeakTimes m ! c)"
    using L assms(4) by (simp add: r)
qed

lemma GetChannelLevels_shape:
  assumes "wf_monitor m" and "length ls = ChannelCount" and "length ps = ChannelCount"
  shows "m_State (fst (GetChannelLevels T q ls ps m)) = m_State m"
    and "wf_monitor (fst (GetChannelLevels T q ls ps m))"
    and "length (out_levels (GetChannelLevels T q ls ps m)) = ChannelCount"
    and "length (out_peaks (GetChannelLevels T q ls ps m)) = ChannelCount"
proof -
  obtain m' ls' ps' where r: "GetChannelLevels T q ls ps m = (m', ls', ps')"
    by (metis prod_cases3)
  then have f: "fold (GetChannelLevels_channel T q) [0..<ChannelCount] (m, ls, ps) = (m', ls', ps')"
    by (simp add: GetChannelLevels_def)
  have len: "ChannelCount \<le> length ls" "ChannelCount \<le> length ps"
    "ChannelCount \<le> length (m_PeakLevels m)" "ChannelCount \<le> length (m_PeakTimes m)"
    using assms by (simp_all add: wf_monitor_def)
  note L = GetChannelLevels_loop [OF f len]
  show "m_State (fst (GetChannelLevels T q ls ps m)) = m_State m"
    using L by (simp add: r)
  show "wf_monitor (fst (GetChannelLevels T q ls ps m))"
    using L assms(1) by (simp add: r wf_monitor_def)
  show "length (out_levels (GetChannelLevels T q ls ps m)) = ChannelCount"
    using L assms(2) by (simp add: r out_levels_def)
  show "length (out_peaks (GetChannelLevels T q ls ps m)) = ChannelCount"
    using L assms(3) by (simp add: r out_peaks_def)
qed

lemma stored_peak_range:
  "wf_monitor m \<Longrightarrow> peaks_in_range m \<Longrightarrow> c < ChannelCount \<Longrightarrow>
   0 \<le> m_PeakLevels m ! c \<and> m_PeakLevels m ! c \<le> 1"
  by (simp add: wf_monitor_def peaks_in_range_def list_all_length)

lemma decayed_peak_range:
  assumes "0 \<le> m_PeakLevels m ! c" and "m_PeakLevels m ! c \<le> 1"
  shows "0 \<le> decayed_peak T q m c \<and> decayed_peak T q m c \<le> 1"
  using assms by (simp add: decayed_peak_def Let_def Utility_Clamp_range)

lemma decayed_peak_le_stored:
  assumes "0 \<le> m_PeakLevels m ! c" and "0 \<le> PeakFalloffTimeMillis T"
  shows "decayed_peak T q m c \<le> m_PeakLevels m ! c"
proof (cases "PeakHoldTimeMillis T \<le> TicksToMillis T (q - m_PeakTimes m ! c)")
  case True
  let ?fall = "Utility_Max (TicksToMillis T (q - m_PeakTimes m ! c) - PeakHoldTimeMillis T) 0"
  have "0 \<le> ?fall / PeakFalloffTimeMillis T"
    using assms(2) by (simp add: Utility_Max_eq)
  then have "Utility_Clamp (m_PeakLevels m ! c - ?fall / PeakFalloffTimeMillis T) 0 1
               \<le> m_PeakLevels m ! c"
    using assms(1) by (simp add: Utility_Clamp_unit)
  with True show ?thesis
    by (simp add: decayed_peak_def Let_def)
next
  case False
  then show ?thesis
    by (simp add: decayed_peak_def Let_def)
qed

lemma peaks_in_range_GetChannelLevels:
  assumes "wf_monitor m" and "peaks_in_range m"
    and "length ls = ChannelCount" and "length ps = ChannelCount"
  shows "peaks_in_range (fst (GetChannelLevels T q ls ps m))"
proof -
  have "length (m_PeakLevels (fst (GetChannelLevels T q ls ps m))) = ChannelCount"
    using GetChannelLevels_shape(2) [OF assms(1,3,4)] by (simp add: wf_monitor_def)
  moreover have "0 \<le> m_PeakLevels (fst (GetChannelLevels T q ls ps m)) ! c \<and>
                 m_PeakLevels (fst (GetChannelLevels T q ls ps m)) ! c \<le> 1"
    if "c < ChannelCount" for c
    using GetChannelLevels_channel_facts(3) [OF assms(1,3,4) that]
      stored_peak_range [OF assms(1,2) that] channel_volume_range [of T q m c]
    by simp
  ultimately show ?thesis
    by (simp add: peaks_in_range_def list_all_length)
qed

lemma peaks_OnShortMessage:
  assumes "OnShortMessage nMessage nTicks m = Some m'"
  shows "m_PeakLevels m' = m_PeakLevels m \<and> m_PeakTimes m' = m_PeakTimes m"
  using assms
  by (auto simp add: OnShortMessage_def ProcessCC_def update_note_def update_channel_def
      AllNotesOff_def ResetControllers_def Let_def split: if_splits)

lemma peaks_OnShortMessages:
  "OnShortMessages es m = Some m' \<Longrightarrow>
   m_PeakLevels m' = m_PeakLevels m \<and> m_PeakTimes m' = m_PeakTimes m"
proof (induction es arbitrary: m)
  case Nil
  then show ?case by simp
next
  case (Cons e es)
  then show ?case
    by (auto split: option.splits dest: peaks_OnShortMessage)
qed

lemma peaks_in_range_new: "peaks_in_range CMIDIMonitor_new"
  by (simp add: peaks_in_range_def CMIDIMonitor_new_def AllNotesOff_def ResetControllers_def
      list_all_length)

lemma peaks_in_range_OnShortMessages:
  "peaks_in_range m \<Longrightarrow> OnShortMessages es m = Some m' \<Longrightarrow> peaks_in_range m'"
  by (auto simp add: peaks_in_range_def dest: peaks_OnShortMessages)

lemma peaks_in_range_the_OnShortMessages:
  "peaks_in_range m \<Longrightarrow> OnShortMessages es m \<noteq> None \<Longrightarrow>
   peaks_in_range (the (OnShortMessages es m))"
  by (auto dest: peaks_in_range_OnShortMessages)

lemma length_out_buffer: "length out_buffer = ChannelCount"
  by (simp add: out_buffer_def)

subsection \<open>Range of the reported values\<close>

text \<open>
  Claim C6. For every monitor (16 channels of 128 notes, stored peaks within [0,1] as the
  data model has them; the constructor establishes both and every operation keeps them)
  and every query tick, \<open>GetChannelLevels\<close> writes for each of the 16 channels a
  loudness and a peak that lie in [0,1], and the peak is at least the loudness.
\<close>

theorem channel_levels_in_unit_interval:
  assumes "wf_monitor m" and "peaks_in_range m"
    and "length pOutLevels = ChannelCount" and "length pOutPeaks = ChannelCount"
  shows "\<forall>c < ChannelCount.
           0 \<le> out_levels (GetChannelLevels T nTicks pOutLevels pOutPeaks m) ! c \<and>
           out_levels (GetChannelLevels T nTicks pOutLevels pOutPeaks m) ! c \<le> 1 \<and>
           0 \<le> out_peaks (GetChannelLevels T nTicks pOutLevels pOutPeaks m) ! c \<and>
           out_peaks (GetChannelLevels T nTicks pOutLevels pOutPeaks m) ! c \<le> 1 \<and>
           out_levels (GetChannelLevels T nTicks pOutLevels pOutPeaks m) ! c
             \<le> out_peaks (GetChannelLevels T nTicks pOutLevels pOutPeaks m) ! c"
proof (intro allI impI)
  fix c
  assume c: "c < ChannelCount"
  note F = GetChannelLevels_channel_facts(1,2) [OF assms(1,3,4) c, of T nTicks]
  have s: "0 \<le> m_PeakLevels m ! c" "m_PeakLevels m ! c \<le> 1"
    using stored_peak_range [OF assms(1,2) c] by simp_all
  have d: "0 \<le> decayed_peak T nTicks m c" "decayed_peak T nTicks m c \<le> 1"
    using decayed_peak_range [OF s, of T nTicks] by simp_all
  have v: "0 \<le> channel_volume T nTicks m c" "channel_volume T nTicks m c \<le> 1"
    using channel_volume_range [of T nTicks m c] by simp_all
  show "0 \<le> out_levels (GetChannelLevels T nTicks pOutLevels pOutPeaks m) ! c \<and>
           out_levels (GetChannelLevels T nTicks pOutLevels pOutPeaks m) ! c \<le> 1 \<and>
           0 \<le> out_peaks (GetChannelLevels T nTicks pOutLevels pOutPeaks m) ! c \<and>
           out_peaks (GetChannelLevels T nTicks pOutLevels pOutPeaks m) ! c \<le> 1 \<and>
           out_levels (GetChannelLevels T nTicks pOutLevels pOutPeaks m) ! c
             \<le> out_peaks (GetChannelLevels T nTicks pOutLevels pOutPeaks m) ! c"
    using d v by (simp add: F)
qed

theorem channel_levels_in_unit_interval_witness:
  "wf_monitor (the (OnShortMessages [(0x7F3C90, 5)] CMIDIMonitor_new)) \<and> peaks_in_range (the (OnShortMessages [(0x7F3C90, 5)] CMIDIMonitor_new)) \<and>
   length out_buffer = ChannelCount \<and> (0::nat) < ChannelCount \<and>
   0 \<le> out_levels (GetChannelLevels Timing_1MHz 1000 out_buffer out_buffer (the (OnShortMessages [(0x7F3C90, 5)] CMIDIMonitor_new))) ! 0 \<and>
   out_levels (GetChannelLevels Timing_1MHz 1000 out_buffer out_buffer (the (OnShortMessages [(0x7F3C90, 5)] CMIDIMonitor_new))) ! 0 \<le> 1 \<and>
   0 \<le> out_peaks (GetChannelLevels Timing_1MHz 1000 out_buffer out_buffer (the (OnShortMessages [(0x7F3C90, 5)] CMIDIMonitor_new))) ! 0 \<and>
   out_peaks (GetChannelLevels Timing_1MHz 1000 out_buffer out_buffer (the (OnShortMessages [(0x7F3C90, 5)] CMIDIMonitor_new))) ! 0 \<le> 1 \<and>
   out_levels (GetChannelLevels Timing_1MHz 1000 out_buffer out_buffer (the (OnShortMessages [(0x7F3C90, 5)] CMIDIMonitor_new))) ! 0
     \<le> out_peaks (GetChannelLevels Timing_1MHz 1000 out_buffer out_buffer (the (OnShortMessages [(0x7F3C90, 5)] CMIDIMonitor_new))) ! 0"
proof -
  have h1: "wf_monitor (the (OnShortMessages [(0x7F3C90, 5)] CMIDIMonitor_new))"
    by (rule wf_the_OnShortMessages [OF wf_monitor_new example_note_on_runs(2)])
  have h2: "peaks_in_range (the (OnShortMessages [(0x7F3C90, 5)] CMIDIMonitor_new))"
    by (rule peaks_in_range_the_OnShortMessages [OF peaks_in_range_new example_note_on_runs(2)])
  have c: "(0::nat) < ChannelCount"
    by (simp add: ChannelCount_def)
  from channel_levels_in_unit_interval
         [OF h1 h2 length_out_buffer length_out_buffer, of Timing_1MHz 1000]
    h1 h2 length_out_buffer c
  show ?thesis
    by blast
qed

subsection \<open>The volume of a channel with at most one sounding note\<close>

lemma note_volume_note_at:
  "note_volume T q m c n =
     (if c = 9 then ComputePercussionEnvelope T q (note_at m c n)
      else ComputeEnvelope T q (note_at m c n))
     * (real (unat (nVelocity (note_at m c n))) / 127)
     * (real (unat (nVolume (m_State m ! c))) / 127)
     * (real (unat (nExpression (m_State m ! c))) / 127)"
  by (simp add: note_volume_def note_at_def Let_def)

lemma note_volume_inactive:
  "nNoteOnTime (note_at m c n) = 0 \<Longrightarrow> note_volume T q m c n = 0"
  by (cases "c = 9") (simp_all add: note_volume_note_at ComputeEnvelope_def ComputePercussionEnvelope_def)

lemma fold_max_upper:
  "(\<forall>i\<in>set xs. f i \<le> b) \<Longrightarrow> a \<le> b \<Longrightarrow>
   fold (\<lambda>i acc. Utility_Max acc (f i)) xs a \<le> (b::real)"
  by (induction xs arbitrary: a) (simp_all add: Utility_Max_eq)

lemma fold_max_mono: "a \<le> fold (\<lambda>i acc. Utility_Max acc (f i)) xs (a::real)"
proof (induction xs arbitrary: a)
  case Nil
  then show ?case by simp
next
  case (Cons x xs)
  have "a \<le> Utility_Max a (f x)" by (simp add: Utility_Max_eq)
  also have "\<dots> \<le> fold (\<lambda>i acc. Utility_Max acc (f i)) xs (Utility_Max a (f x))"
    by (rule Cons.IH)
  finally show ?case by simp
qed

lemma fold_max_lower:
  "n \<in> set xs \<Longrightarrow> f n \<le> fold (\<lambda>i acc. Utility_Max acc (f i)) xs (a::real)"
proof (induction xs arbitrary: a)
  case Nil
  then show ?case by simp
next
  case (Cons x xs)
  show ?case
  proof (cases "n = x")
    case True
    have "f x \<le> Utility_Max a (f x)" by (simp add: Utility_Max_eq)
    also have "\<dots> \<le> fold (\<lambda>i acc. Utility_Max acc (f i)) xs (Utility_Max a (f x))"
      by (rule fold_max_mono)
    finally show ?thesis using True by simp
  next
    case False
    with Cons.prems have "n \<in> set xs" by simp
    then show ?thesis by (simp add: Cons.IH)
  qed
qed

lemma channel_volume_single:
  assumes "n < NoteCount" and "note_volume T q m c n = x" and "0 \<le> x" and "x \<le> 1"
    and "\<forall>n' < NoteCount. n' \<noteq> n \<longrightarrow> note_volume T q m c n' = 0"
  shows "channel_volume T q m c = x"
proof -
  let ?loop = "fold (\<lambda>nNote nChannelVolume.
                       Utility_Max nChannelVolume (note_volume T q m c nNote)) [0..<NoteCount] 0"
  have "\<forall>i\<in>set [0..<NoteCount]. note_volume T q m c i \<le> x"
    using assms(2,3,5) by auto
  then have "?loop \<le> x"
    using assms(3) by (rule fold_max_upper)
  moreover have "note_volume T q m c n \<le> ?loop"
    using assms(1) by (intro fold_max_lower) simp
  ultimately have "?loop = x"
    using assms(2) by simp
  then show ?thesis
    using assms(3,4) by (simp add: channel_volume_def Utility_Clamp_unit)
qed

lemma channel_volume_silent:
  assumes "\<forall>n < NoteCount. nNoteOnTime (note_at m c n) = 0"
  shows "channel_volume T q m c = 0"
proof -
  let ?loop = "fold (\<lambda>nNote nChannelVolume.
                       Utility_Max nChannelVolume (note_volume T q m c nNote)) [0..<NoteCount] 0"
  have "\<forall>i\<in>set [0..<NoteCount]. note_volume T q m c i \<le> 0"
    using assms by (simp add: note_volume_inactive)
  then have "?loop \<le> 0"
    by (rule fold_max_upper) simp
  moreover have "0 \<le> ?loop"
    by (rule fold_max_mono)
  ultimately show ?thesis
    by (simp add: channel_volume_def Utility_Clamp_unit)
qed

lemma note_at_new:
  "c < ChannelCount \<Longrightarrow> n < NoteCount \<Longrightarrow>
   note_at CMIDIMonitor_new c n = \<lparr>nNoteOnTime = 0, nNoteOffTime = 0, nVelocity = 0\<rparr>"
  by (simp add: note_at_def CMIDIMonitor_new_def AllNotesOff_def ResetControllers_def)

lemma controllers_new:
  "c < ChannelCount \<Longrightarrow>
   nVolume (m_State CMIDIMonitor_new ! c) = 100 \<and>
   nPan (m_State CMIDIMonitor_new ! c) = 64 \<and>
   nExpression (m_State CMIDIMonitor_new ! c) = 127"
  by (simp add: CMIDIMonitor_new_def AllNotesOff_def ResetControllers_def)

lemma note_at_update_note_other:
  assumes "wf_monitor m" and "update_note c n f m = Some m'"
    and "c' \<noteq> unat c \<or> n' \<noteq> unat n"
  shows "note_at m' c' n' = note_at m c' n'"
proof -
  from assms(2) have n: "unat n < NoteCount" and c: "unat c < length (m_State m)"
    by (auto simp add: update_note_def split: if_splits)
  from assms(2) n c have m': "m' = m\<lparr>m_State :=
      (m_State m)[unat c := (m_State m ! unat c)\<lparr>Notes :=
         (Notes (m_State m ! unat c))[unat n := f (Notes (m_State m ! unat c) ! unat n)]\<rparr>]\<rparr>"
    by (simp add: update_note_def Let_def)
  show ?thesis
  proof (cases "c' = unat c")
    case True
    with assms(3) have "n' \<noteq> unat n" by simp
    with True c show ?thesis
      by (simp add: m' note_at_def)
  next
    case False
    then show ?thesis
      by (simp add: m' note_at_def)
  qed
qed

lemma controllers_update_note:
  assumes "update_note c n f m = Some m'"
  shows "nVolume (m_State m' ! c') = nVolume (m_State m ! c') \<and>
         nPan (m_State m' ! c') = nPan (m_State m ! c') \<and>
         nExpression (m_State m' ! c') = nExpression (m_State m ! c')"
proof -
  from assms have n: "unat n < NoteCount" and c: "unat c < length (m_State m)"
    by (auto simp add: update_note_def split: if_splits)
  from assms n c have m': "m' = m\<lparr>m_State :=
      (m_State m)[unat c := (m_State m ! unat c)\<lparr>Notes :=
         (Notes (m_State m ! unat c))[unat n := f (Notes (m_State m ! unat c) ! unat n)]\<rparr>]\<rparr>"
    by (simp add: update_note_def Let_def)
  show ?thesis
    using c by (cases "c' = unat c") (simp_all add: m')
qed

lemma EaseFunction_values: "EaseFunction 0 = 0" "EaseFunction 1 = 1" "EaseFunction (1/2) = 3/4"
  by (simp_all add: EaseFunction_def)


lemma note_at_same_state: "m_State m1 = m_State m2 \<Longrightarrow> note_at m1 c n = note_at m2 c n"
  by (simp add: note_at_def)

lemma held_note_envelope:
  "t \<noteq> 0 \<Longrightarrow> ComputeEnvelope T q \<lparr>nNoteOnTime = t, nNoteOffTime = 0, nVelocity = v\<rparr> = 1"
  by (simp add: ComputeEnvelope_def Let_def)

lemma half_released_envelope:
  assumes "t \<noteq> 0" and "t \<le> q" and "0 < DecayReleaseTimeMillis T"
    and "TicksToMillis T (q - t) = DecayReleaseTimeMillis T / 2"
  shows "ComputeEnvelope T q \<lparr>nNoteOnTime = t, nNoteOffTime = t, nVelocity = v\<rparr> = 3 / 4"
proof -
  have q: "max q t = q"
    using assms(2) by (simp add: max_def)
  have d: "min (DecayReleaseTimeMillis T / 2) (DecayReleaseTimeMillis T)
             = DecayReleaseTimeMillis T / 2"
    using assms(3) by simp
  have h: "1 - DecayReleaseTimeMillis T / 2 / DecayReleaseTimeMillis T = 1 / 2"
    using assms(3) by simp
  show ?thesis
    using assms(1,3)
    by (simp add: ComputeEnvelope_def Let_def Utility_Max_eq Utility_Min_eq q assms(4) d
        EaseFunction_values)
qed


lemma Timing_1MHz_simps:
  "TicksToMillis Timing_1MHz = TicksToMillis_1MHz"
  "DecayReleaseTimeMillis Timing_1MHz = 1000"
  "PeakHoldTimeMillis Timing_1MHz = 2000"
  "PeakFalloffTimeMillis Timing_1MHz = 1000"
  by (simp_all add: Timing_1MHz_def)

subsection \<open>The Note-On / Note-Off scenario\<close>

lemma example_runs_tick0:
  "OnShortMessages [(0x7F3C90, 0)] CMIDIMonitor_new \<noteq> None"
  "OnShortMessages [(0x7F2499, 0)] CMIDIMonitor_new \<noteq> None"
  by (simp_all add: run_defs)

lemma silent_update_note_off:
  assumes "wf_monitor m" and "update_note c n (\<lambda>Note. Note\<lparr>nNoteOffTime := t\<rparr>) m = Some m'"
    and "nNoteOnTime (note_at m c' n') = 0"
  shows "nNoteOnTime (note_at m' c' n') = 0"
proof (cases "c' = unat c \<and> n' = unat n")
  case True
  then show ?thesis
    using note_at_update_note [OF assms(1,2)] assms(3) by simp
next
  case False
  then have "c' \<noteq> unat c \<or> n' \<noteq> unat n" by simp
  then show ?thesis
    using note_at_update_note_other [OF assms(1,2)] assms(3) by simp
qed

lemma note_on_fresh_monitor:
  assumes "msg_status nOn = 0x90" and "msg_channel nOn = 0" and "msg_data2 nOn = 127"
    and "unat (msg_data1 nOn) < NoteCount"
  shows "\<exists>m1. OnShortMessage nOn nTicks CMIDIMonitor_new = Some m1 \<and> wf_monitor m1 \<and>
           note_at m1 0 (unat (msg_data1 nOn))
             = \<lparr>nNoteOnTime = nTicks, nNoteOffTime = 0, nVelocity = 127\<rparr> \<and>
           (\<forall>n' < NoteCount. n' \<noteq> unat (msg_data1 nOn) \<longrightarrow>
              nNoteOnTime (note_at m1 0 n') = 0) \<and>
           nVolume (m_State m1 ! 0) = 100 \<and> nExpression (m_State m1 ! 0) = 127"
proof -
  let ?n = "unat (msg_data1 nOn)"
  let ?on = "\<lambda>Note. Note\<lparr>nNoteOnTime := nTicks, nNoteOffTime := 0, nVelocity := msg_data2 nOn\<rparr>"
  have c0: "(0::nat) < ChannelCount"
    by (simp add: ChannelCount_def)
  have ch: "unat (0::u8) < ChannelCount"
    by (simp add: ChannelCount_def)
  have on: "OnShortMessage nOn nTicks CMIDIMonitor_new
              = update_note 0 (msg_data1 nOn) ?on CMIDIMonitor_new"
    using assms(1,2,3) by (simp add: OnShortMessage_def)
  obtain m1 where u1: "update_note 0 (msg_data1 nOn) ?on CMIDIMonitor_new = Some m1"
    using update_note_Some [OF wf_monitor_new assms(4) ch] by blast
  have wf1: "wf_monitor m1"
    by (rule wf_update_note [OF wf_monitor_new u1])
  have n1: "note_at m1 0 ?n = \<lparr>nNoteOnTime = nTicks, nNoteOffTime = 0, nVelocity = 127\<rparr>"
    using note_at_update_note [OF wf_monitor_new u1]
    by (simp add: note_at_new [OF c0 assms(4)] assms(3))
  have o1: "nNoteOnTime (note_at m1 0 n') = 0" if "n' < NoteCount" and "n' \<noteq> ?n" for n'
    using note_at_update_note_other [OF wf_monitor_new u1, of 0 n'] that
    by (simp add: note_at_new [OF c0])
  have k1: "nVolume (m_State m1 ! 0) = 100" "nExpression (m_State m1 ! 0) = 127"
    using controllers_update_note [OF u1, of 0] controllers_new [OF c0] by simp_all
  from u1 wf1 n1 o1 k1 show ?thesis
    by (simp add: on)
qed

lemma single_note_level:
  assumes "wf_monitor m" and "length ls = ChannelCount" and "length ps = ChannelCount"
    and "n < NoteCount"
    and "\<forall>n' < NoteCount. n' \<noteq> n \<longrightarrow> nNoteOnTime (note_at m 0 n') = 0"
    and "nVelocity (note_at m 0 n) = 127"
    and "nVolume (m_State m ! 0) = 100" and "nExpression (m_State m ! 0) = 127"
    and "ComputeEnvelope T q (note_at m 0 n) = e" and "0 \<le> e" and "e \<le> 1"
  shows "out_levels (GetChannelLevels T q ls ps m) ! 0 = e * (100 / 127)"
proof -
  have c0: "(0::nat) < ChannelCount"
    by (simp add: ChannelCount_def)
  have v: "note_volume T q m 0 n = e * (100 / 127)"
    by (simp add: note_volume_note_at assms(6,7,8,9))
  have z: "\<forall>n' < NoteCount. n' \<noteq> n \<longrightarrow> note_volume T q m 0 n' = 0"
    using assms(5) by (simp add: note_volume_inactive)
  have le: "e * (100 / 127) \<le> 1"
    using assms(10,11) by simp
  have ge: "0 \<le> e * (100 / 127)"
    using assms(10) by simp
  have "channel_volume T q m 0 = e * (100 / 127)"
    by (rule channel_volume_single [OF assms(4) v ge le z])
  then show ?thesis
    using GetChannelLevels_channel_facts(1) [OF assms(1,2,3) c0] by simp
qed

text \<open>
  Claim C5, counterexample. The scenario as it is stated, run with a release time of
  1000 ms on a 1 MHz tick counter: a fresh monitor, Note-On 0x7F3C90 (channel 0, note 60,
  velocity 127) at tick 0, a query at tick 0, Note-Off 0x003C80 at tick 0, a query at tick
  500000 (500 ms). A note whose on-time is 0 counts as inactive, so both queries report
  level 0 for channel 0, not about 1.0 and about 0.75. With the same Note-On at tick 1000
  the query at that tick reports 100/127, the channel volume 100 scaling the level.
\<close>

theorem scenario_at_tick_zero_counterexample:
  "out_levels (GetChannelLevels Timing_1MHz 0 out_buffer out_buffer (the (OnShortMessages [(0x7F3C90, 0)] CMIDIMonitor_new))) ! 0 = 0 \<and>
   out_levels
     (GetChannelLevels Timing_1MHz 500000 out_buffer out_buffer
        (the (OnShortMessage 0x003C80 0
                (fst (GetChannelLevels Timing_1MHz 0 out_buffer out_buffer (the (OnShortMessages [(0x7F3C90, 0)] CMIDIMonitor_new))))))) ! 0 = 0 \<and>
   out_levels
     (GetChannelLevels Timing_1MHz 1000 out_buffer out_buffer
        (the (OnShortMessage 0x7F3C90 1000 CMIDIMonitor_new))) ! 0 = 100 / 127"
proof -
  let ?A = "(the (OnShortMessages [(0x7F3C90, 0)] CMIDIMonitor_new))"
  let ?B = "fst (GetChannelLevels Timing_1MHz 0 out_buffer out_buffer ?A)"
  have c0: "(0::nat) < ChannelCount"
    by (simp add: ChannelCount_def)
  have wfA: "wf_monitor ?A"
    by (rule wf_the_OnShortMessages [OF wf_monitor_new example_runs_tick0(1)])
  have sA: "\<forall>n < NoteCount. nNoteOnTime (note_at ?A 0 n) = 0"
    by (simp add: run_defs nth_list_update)
  have first: "out_levels (GetChannelLevels Timing_1MHz 0 out_buffer out_buffer ?A) ! 0 = 0"
    using GetChannelLevels_channel_facts(1) [OF wfA length_out_buffer length_out_buffer c0]
      channel_volume_silent [OF sA]
    by simp
  have wfB: "wf_monitor ?B"
    by (rule GetChannelLevels_shape(2) [OF wfA length_out_buffer length_out_buffer])
  have stB: "m_State ?B = m_State ?A"
    by (rule GetChannelLevels_shape(1) [OF wfA length_out_buffer length_out_buffer])
  have sB: "\<forall>n < NoteCount. nNoteOnTime (note_at ?B 0 n) = 0"
    using sA by (simp only: note_at_same_state [OF stB])
  have off: "OnShortMessage 0x003C80 0 ?B
               = update_note 0 60 (\<lambda>Note. Note\<lparr>nNoteOffTime := 0\<rparr>) ?B"
    by (simp add: OnShortMessage_def msg_defs)
  obtain m2 where u2: "update_note 0 60 (\<lambda>Note. Note\<lparr>nNoteOffTime := 0\<rparr>) ?B = Some m2"
    using update_note_Some [OF wfB, of 60 0] by (auto simp add: NoteCount_def ChannelCount_def)
  have wf2: "wf_monitor m2"
    by (rule wf_update_note [OF wfB u2])
  have s2: "\<forall>n < NoteCount. nNoteOnTime (note_at m2 0 n) = 0"
    using sB silent_update_note_off [OF wfB u2] by simp
  have second: "out_levels (GetChannelLevels Timing_1MHz 500000 out_buffer out_buffer m2) ! 0 = 0"
    using GetChannelLevels_channel_facts(1) [OF wf2 length_out_buffer length_out_buffer c0]
      channel_volume_silent [OF s2]
    by simp
  have m2: "the (OnShortMessage 0x003C80 0 ?B) = m2"
    by (simp only: off u2 option.sel)
  \<comment> \<open>the same Note-On at tick 1000\<close>
  have d: "msg_status 0x7F3C90 = 0x90" "msg_channel 0x7F3C90 = 0" "msg_data2 0x7F3C90 = 127"
    "unat (msg_data1 0x7F3C90) = 60"
    by (simp_all add: msg_defs)
  have n60: "unat (msg_data1 0x7F3C90) < NoteCount"
    by (simp add: d NoteCount_def)
  from note_on_fresh_monitor [OF d(1,2,3) n60, of 1000] obtain m1
    where u1: "OnShortMessage 0x7F3C90 1000 CMIDIMonitor_new = Some m1"
      and wf1: "wf_monitor m1"
      and n1: "note_at m1 0 (unat (msg_data1 0x7F3C90))
                 = \<lparr>nNoteOnTime = 1000, nNoteOffTime = 0, nVelocity = 127\<rparr>"
      and o1: "\<forall>n' < NoteCount. n' \<noteq> unat (msg_data1 0x7F3C90) \<longrightarrow>
                 nNoteOnTime (note_at m1 0 n') = 0"
      and k1: "nVolume (m_State m1 ! 0) = 100" "nExpression (m_State m1 ! 0) = 127"
    by blast
  have e1: "ComputeEnvelope Timing_1MHz 1000 (note_at m1 0 (unat (msg_data1 0x7F3C90))) = 1"
    by (simp add: n1 held_note_envelope)
  have third: "out_levels (GetChannelLevels Timing_1MHz 1000 out_buffer out_buffer m1) ! 0
                 = 100 / 127"
    using single_note_level [OF wf1 length_out_buffer length_out_buffer n60 o1 _ k1 e1]
    by (simp add: n1)
  have m1: "the (OnShortMessage 0x7F3C90 1000 CMIDIMonitor_new) = m1"
    by (simp only: u1 option.sel)
  from first second third show ?thesis
    unfolding m2 m1 by (intro conjI)
qed

text \<open>
  Claim C5, amended. On a fresh monitor (volume 100, expression 127) a Note-On with
  velocity 127 on channel 0 at a tick other than 0, queried at that tick, gives channel 0
  the level 100/127 (about 0.787: the envelope 1.0 scaled by the volume 100/127). After a
  Note-Off for the note at the same tick, a query at a later tick whose distance is half
  the release time gives \<open>ease(0.5) * 100/127 = 0.75 * 100/127\<close> (about 0.591).
\<close>

theorem note_on_then_note_off_levels:
  assumes "nTicks \<noteq> 0" and "0 < DecayReleaseTimeMillis T"
    and "msg_status nOn = 0x90" and "msg_channel nOn = 0" and "msg_data2 nOn = 127"
    and "unat (msg_data1 nOn) < NoteCount"
    and "msg_status nOff = 0x80" and "msg_channel nOff = 0"
    and "msg_data1 nOff = msg_data1 nOn"
    and "length ls = ChannelCount" and "length ps = ChannelCount"
    and "nTicks \<le> q" and "TicksToMillis T (q - nTicks) = DecayReleaseTimeMillis T / 2"
  shows "\<exists>m1 m2.
           OnShortMessage nOn nTicks CMIDIMonitor_new = Some m1 \<and>
           out_levels (GetChannelLevels T nTicks ls ps m1) ! 0 = 100 / 127 \<and>
           OnShortMessage nOff nTicks (fst (GetChannelLevels T nTicks ls ps m1)) = Some m2 \<and>
           out_levels (GetChannelLevels T q ls ps m2) ! 0 = 3 / 4 * (100 / 127)"
proof -
  let ?n = "unat (msg_data1 nOn)"
  let ?off = "\<lambda>Note. Note\<lparr>nNoteOffTime := nTicks\<rparr>"
  have ch: "unat (0::u8) < ChannelCount" "unat (0::u8) = 0"
    by (simp_all add: ChannelCount_def)
  \<comment> \<open>the Note-On and the first query\<close>
  from note_on_fresh_monitor [OF assms(3,4,5,6), of nTicks] obtain m1
    where u1: "OnShortMessage nOn nTicks CMIDIMonitor_new = Some m1"
      and wf1: "wf_monitor m1"
      and n1: "note_at m1 0 ?n = \<lparr>nNoteOnTime = nTicks, nNoteOffTime = 0, nVelocity = 127\<rparr>"
      and o1: "\<forall>n' < NoteCount. n' \<noteq> ?n \<longrightarrow> nNoteOnTime (note_at m1 0 n') = 0"
      and k1: "nVolume (m_State m1 ! 0) = 100" "nExpression (m_State m1 ! 0) = 127"
    by blast
  have e1: "ComputeEnvelope T nTicks (note_at m1 0 ?n) = 1"
    using assms(1) by (simp add: n1 held_note_envelope)
  have r1: "out_levels (GetChannelLevels T nTicks ls ps m1) ! 0 = 100 / 127"
    using single_note_level [OF wf1 assms(10,11,6) o1 _ k1 e1] by (simp add: n1)
  \<comment> \<open>the state after the first query\<close>
  let ?m1' = "fst (GetChannelLevels T nTicks ls ps m1)"
  have wf1': "wf_monitor ?m1'"
    by (rule GetChannelLevels_shape(2) [OF wf1 assms(10,11)])
  have st: "m_State ?m1' = m_State m1"
    by (rule GetChannelLevels_shape(1) [OF wf1 assms(10,11)])
  \<comment> \<open>the Note-Off and the second query\<close>
  have off: "OnShortMessage nOff nTicks m = update_note 0 (msg_data1 nOn) ?off m" for m
    using assms(7,8,9) by (simp add: OnShortMessage_def)
  obtain m2 where u2: "update_note 0 (msg_data1 nOn) ?off ?m1' = Some m2"
    using update_note_Some [OF wf1' assms(6) ch(1)] by blast
  have wf2: "wf_monitor m2"
    by (rule wf_update_note [OF wf1' u2])
  have n2: "note_at m2 0 ?n = \<lparr>nNoteOnTime = nTicks, nNoteOffTime = nTicks, nVelocity = 127\<rparr>"
    using note_at_update_note [OF wf1' u2]
    by (simp add: note_at_same_state [OF st] n1)
  have o2: "\<forall>n' < NoteCount. n' \<noteq> ?n \<longrightarrow> nNoteOnTime (note_at m2 0 n') = 0"
    using o1 silent_update_note_off [OF wf1' u2] by (simp add: note_at_same_state [OF st])
  have k2: "nVolume (m_State m2 ! 0) = 100" "nExpression (m_State m2 ! 0) = 127"
    using controllers_update_note [OF u2, of 0] k1 by (simp_all add: st)
  have e2: "ComputeEnvelope T q (note_at m2 0 ?n) = 3 / 4"
    by (simp add: n2 half_released_envelope [OF assms(1,12,2,13)])
  have r2: "out_levels (GetChannelLevels T q ls ps m2) ! 0 = 3 / 4 * (100 / 127)"
    using single_note_level [OF wf2 assms(10,11,6) o2 _ k2 e2] by (simp add: n2)
  from u1 r1 u2 r2 show ?thesis
    by (simp add: off)
qed

theorem note_on_then_note_off_levels_witness:
  "(1000::u32) \<noteq> 0 \<and> 0 < DecayReleaseTimeMillis Timing_1MHz \<and>
   msg_status 0x7F3C90 = 0x90 \<and> msg_channel 0x7F3C90 = 0 \<and> msg_data2 0x7F3C90 = 127 \<and>
   unat (msg_data1 0x7F3C90) < NoteCount \<and>
   msg_status 0x003C80 = 0x80 \<and> msg_channel 0x003C80 = 0 \<and>
   msg_data1 0x003C80 = msg_data1 0x7F3C90 \<and>
   length out_buffer = ChannelCount \<and>
   (1000::u32) \<le> 501000 \<and>
   TicksToMillis Timing_1MHz (501000 - 1000) = DecayReleaseTimeMillis Timing_1MHz / 2 \<and>
   (\<exists>m1 m2.
      OnShortMessage 0x7F3C90 1000 CMIDIMonitor_new = Some m1 \<and>
      out_levels (GetChannelLevels Timing_1MHz 1000 out_buffer out_buffer m1) ! 0 = 100 / 127 \<and>
      OnShortMessage 0x003C80 1000
        (fst (GetChannelLevels Timing_1MHz 1000 out_buffer out_buffer m1)) = Some m2 \<and>
      out_levels (GetChannelLevels Timing_1MHz 501000 out_buffer out_buffer m2) ! 0
        = 3 / 4 * (100 / 127))"
proof -
  have h1: "(1000::u32) \<noteq> 0" by simp
  have h2: "0 < DecayReleaseTimeMillis Timing_1MHz"
    by (simp add: Timing_1MHz_simps)
  have h3: "msg_status 0x7F3C90 = 0x90" and h4: "msg_channel 0x7F3C90 = 0"
    and h5: "msg_data2 0x7F3C90 = 127"
    and h7: "msg_status 0x003C80 = 0x80" and h8: "msg_channel 0x003C80 = 0"
    and h9: "msg_data1 0x003C80 = msg_data1 0x7F3C90"
    by (simp_all add: msg_defs)
  have h6: "unat (msg_data1 0x7F3C90) < NoteCount"
    by (simp add: msg_defs NoteCount_def)
  have h12: "(1000::u32) \<le> 501000" by simp
  have h13: "TicksToMillis Timing_1MHz (501000 - 1000) = DecayReleaseTimeMillis Timing_1MHz / 2"
    by (simp add: Timing_1MHz_simps TicksToMillis_1MHz_def)
  show ?thesis
    by (intro conjI h1 h2 h3 h4 h5 h6 h7 h8 h9 h12 h13 length_out_buffer
        note_on_then_note_off_levels
          [OF h1 h2 h3 h4 h5 h6 h7 h8 h9 length_out_buffer length_out_buffer h12 h13])
qed

subsection \<open>The percussion channel\<close>

lemma spec_percussion_envelope_at_onset_tick:
  "ComputePercussionEnvelope T q \<lparr>nNoteOnTime = t, nNoteOffTime = off, nVelocity = v\<rparr>
     = (if t = 0 then 0 else spec_percussion_envelope T t (max q t))"
  by (simp add: ComputePercussionEnvelope_def spec_percussion_envelope_def Let_def
      Utility_Max_eq Utility_Min_eq)

lemma spec_percussion_envelope_expired:
  assumes "0 < DecayReleaseTimeMillis T" and "DecayReleaseTimeMillis T \<le> TicksToMillis T (q - t)"
  shows "spec_percussion_envelope T t q = 0"
proof -
  have "min (TicksToMillis T (q - t)) (DecayReleaseTimeMillis T) = DecayReleaseTimeMillis T"
    using assms(2) by simp
  then show ?thesis
    using assms(1) by (simp add: spec_percussion_envelope_def EaseFunction_values)
qed

text \<open>
  Claim C9, counterexample, with a release time of 1000 ms on a 1 MHz tick counter.
  A Note-On on channel 9 handled at tick 0 leaves the note inactive: the envelope of a
  query at tick 0 is 0 where the stated formula gives 1. A Note-On at tick 4294967040
  followed by a query at tick 999744, which is 1000000 ticks later on the wrapped counter:
  the query tick is raised to the on-time, the envelope is 1, where the stated formula
  gives 0.
\<close>

theorem percussion_envelope_counterexample:
  "ComputePercussionEnvelope Timing_1MHz 0
     (note_at (the (OnShortMessages [(0x7F2499, 0)] CMIDIMonitor_new)) 9 36) = 0 \<and>
   spec_percussion_envelope Timing_1MHz 0 0 = 1 \<and>
   ComputePercussionEnvelope Timing_1MHz 999744
     (note_at (the (OnShortMessages [(0x7F2499, 4294967040)] CMIDIMonitor_new)) 9 36) = 1 \<and>
   spec_percussion_envelope Timing_1MHz 4294967040 999744 = 0"
proof -
  have n0: "note_at (the (OnShortMessages [(0x7F2499, 0)] CMIDIMonitor_new)) 9 36
              = \<lparr>nNoteOnTime = 0, nNoteOffTime = 0, nVelocity = 0x7F\<rparr>"
    by (simp add: run_defs)
  have n1: "note_at (the (OnShortMessages [(0x7F2499, 4294967040)] CMIDIMonitor_new)) 9 36
              = \<lparr>nNoteOnTime = 4294967040, nNoteOffTime = 0, nVelocity = 0x7F\<rparr>"
    by (simp add: run_defs)
  have a: "ComputePercussionEnvelope Timing_1MHz 0
             \<lparr>nNoteOnTime = 0, nNoteOffTime = 0, nVelocity = 0x7F\<rparr> = 0"
    by (simp add: ComputePercussionEnvelope_def)
  have b: "spec_percussion_envelope Timing_1MHz 0 0 = 1"
    by (simp add: spec_percussion_envelope_def Timing_1MHz_simps TicksToMillis_1MHz_def
        EaseFunction_values)
  have c: "ComputePercussionEnvelope Timing_1MHz 999744
             \<lparr>nNoteOnTime = 4294967040, nNoteOffTime = 0, nVelocity = 0x7F\<rparr> = 1"
    by (simp add: ComputePercussionEnvelope_def Utility_Max_def Utility_Min_def
        Timing_1MHz_simps TicksToMillis_1MHz_def EaseFunction_values)
  have d: "spec_percussion_envelope Timing_1MHz 4294967040 999744 = 0"
    by (simp add: spec_percussion_envelope_def Timing_1MHz_simps TicksToMillis_1MHz_def
        EaseFunction_values)
  show ?thesis
    unfolding n0 n1 by (intro conjI a b c d)
qed

text \<open>
  Claim C9, amended. For a note of channel 9 switched on (velocity above 0) at a tick \<open>t\<close>
  other than 0, the envelope of a query at tick \<open>q\<close> is
  \<open>ease(max(1 - elapsedMs / decayReleaseTimeMillis, 0))\<close> with
  \<open>elapsedMs = min(millis(max(q, t) - t), decayReleaseTimeMillis)\<close>, the query tick
  being raised to \<open>t\<close> first; for \<open>t \<le> q\<close> this is the formula of the
  specification. It is 0 as soon as \<open>millis(max(q, t) - t)\<close> reaches the release
  time, and it is the envelope that enters the volume of the note in \<open>GetChannelLevels\<close>.
\<close>

theorem percussion_envelope_decays_from_onset:
  assumes "wf_monitor m"
    and "msg_status nMessage = 0x90" and "msg_channel nMessage = 9" and "msg_data2 nMessage \<noteq> 0"
    and "n = unat (msg_data1 nMessage)" and "n < NoteCount"
    and "nTicks \<noteq> 0" and "0 < DecayReleaseTimeMillis T"
  shows "\<exists>m'. OnShortMessage nMessage nTicks m = Some m' \<and>
           (\<forall>q. ComputePercussionEnvelope T q (note_at m' 9 n)
                  = spec_percussion_envelope T nTicks (max q nTicks) \<and>
                (nTicks \<le> q \<longrightarrow>
                   ComputePercussionEnvelope T q (note_at m' 9 n)
                     = spec_percussion_envelope T nTicks q) \<and>
                (DecayReleaseTimeMillis T \<le> TicksToMillis T (max q nTicks - nTicks) \<longrightarrow>
                   ComputePercussionEnvelope T q (note_at m' 9 n) = 0) \<and>
                note_volume T q m' 9 n
                  = ComputePercussionEnvelope T q (note_at m' 9 n)
                    * (real (unat (msg_data2 nMessage)) / 127)
                    * (real (unat (nVolume (m_State m ! 9))) / 127)
                    * (real (unat (nExpression (m_State m ! 9))) / 127))"
proof -
  let ?on = "\<lambda>Note. Note\<lparr>nNoteOnTime := nTicks, nNoteOffTime := 0,
                          nVelocity := msg_data2 nMessage\<rparr>"
  have ch: "unat (9::u8) < ChannelCount" "unat (9::u8) = 9"
    by (simp_all add: ChannelCount_def)
  have on: "OnShortMessage nMessage nTicks m = update_note 9 (msg_data1 nMessage) ?on m"
    using assms(2,3,4) by (simp add: OnShortMessage_def)
  have "unat (msg_data1 nMessage) < NoteCount"
    using assms(5,6) by simp
  then obtain m' where u: "update_note 9 (msg_data1 nMessage) ?on m = Some m'"
    using update_note_Some [OF assms(1) _ ch(1)] by blast
  have nt: "note_at m' 9 n = (note_at m 9 n)\<lparr>nNoteOnTime := nTicks, nNoteOffTime := 0,
                                               nVelocity := msg_data2 nMessage\<rparr>"
    using note_at_update_note [OF assms(1) u] by (simp add: assms(5))
  then have nt': "note_at m' 9 n = \<lparr>nNoteOnTime = nTicks, nNoteOffTime = 0,
                                   nVelocity = msg_data2 nMessage\<rparr>"
    by simp
  have k: "nVolume (m_State m' ! 9) = nVolume (m_State m ! 9)"
    "nExpression (m_State m' ! 9) = nExpression (m_State m ! 9)"
    using controllers_update_note [OF u, of 9] by simp_all
  have env: "ComputePercussionEnvelope T q (note_at m' 9 n)
               = spec_percussion_envelope T nTicks (max q nTicks)" for q
    using assms(7) by (simp only: nt' spec_percussion_envelope_at_onset_tick if_False)
  have later: "ComputePercussionEnvelope T q (note_at m' 9 n) = spec_percussion_envelope T nTicks q"
    if "nTicks \<le> q" for q
    using that by (simp add: env max_def)
  have gone: "ComputePercussionEnvelope T q (note_at m' 9 n) = 0"
    if "DecayReleaseTimeMillis T \<le> TicksToMillis T (max q nTicks - nTicks)" for q
    using spec_percussion_envelope_expired [OF assms(8) that] by (simp add: env)
  have vol: "note_volume T q m' 9 n
                  = ComputePercussionEnvelope T q (note_at m' 9 n)
                    * (real (unat (msg_data2 nMessage)) / 127)
                    * (real (unat (nVolume (m_State m ! 9))) / 127)
                    * (real (unat (nExpression (m_State m ! 9))) / 127)" for q
    by (simp add: note_volume_note_at k) (simp add: nt')
  from u env later gone vol show ?thesis
    by (simp add: on)
qed


theorem percussion_envelope_decays_from_onset_witness:
  "wf_monitor CMIDIMonitor_new \<and>
   msg_status 0x7F2499 = 0x90 \<and> msg_channel 0x7F2499 = 9 \<and> msg_data2 0x7F2499 \<noteq> 0 \<and>
   (36::nat) = unat (msg_data1 0x7F2499) \<and> (36::nat) < NoteCount \<and>
   (5000::u32) \<noteq> 0 \<and> 0 < DecayReleaseTimeMillis Timing_1MHz \<and>
   (5000::u32) \<le> 2000000 \<and>
   DecayReleaseTimeMillis Timing_1MHz
     \<le> TicksToMillis Timing_1MHz (max 2000000 5000 - 5000) \<and>
   (\<exists>m'. OnShortMessage 0x7F2499 5000 CMIDIMonitor_new = Some m' \<and>
      ComputePercussionEnvelope Timing_1MHz 2000000 (note_at m' 9 36)
        = spec_percussion_envelope Timing_1MHz 5000 2000000 \<and>
      ComputePercussionEnvelope Timing_1MHz 2000000 (note_at m' 9 36) = 0)"
proof -
  have h2: "msg_status 0x7F2499 = 0x90" and h3: "msg_channel 0x7F2499 = 9"
    and h4: "msg_data2 0x7F2499 \<noteq> 0" and h5: "(36::nat) = unat (msg_data1 0x7F2499)"
    by (simp_all add: msg_defs)
  have h6: "(36::nat) < NoteCount"
    by (simp add: NoteCount_def)
  have h7: "(5000::u32) \<noteq> 0"
    by simp
  have h8: "0 < DecayReleaseTimeMillis Timing_1MHz"
    by (simp add: Timing_1MHz_simps)
  have g1: "(5000::u32) \<le> 2000000"
    by simp
  have g2: "DecayReleaseTimeMillis Timing_1MHz
              \<le> TicksToMillis Timing_1MHz (max 2000000 5000 - 5000)"
    by (simp add: Timing_1MHz_simps TicksToMillis_1MHz_def)
  from percussion_envelope_decays_from_onset
         [OF wf_monitor_new h2 h3 h4 h5 h6 h7 h8]
    wf_monitor_new h2 h3 h4 h5 h6 h7 h8 g1 g2
  show ?thesis
    by blast
qed

subsection \<open>Peak hold and decay\<close>

lemma decayed_peak_closed_form:
  assumes "0 \<le> m_PeakLevels m ! c" and "m_PeakLevels m ! c \<le> 1"
    and "0 < PeakFalloffTimeMillis T"
  shows "decayed_peak T q m c =
           (if TicksToMillis T (q - m_PeakTimes m ! c) < PeakHoldTimeMillis T
            then m_PeakLevels m ! c
            else max 0 (m_PeakLevels m ! c
                          - (TicksToMillis T (q - m_PeakTimes m ! c) - PeakHoldTimeMillis T)
                            / PeakFalloffTimeMillis T))"
proof (cases "TicksToMillis T (q - m_PeakTimes m ! c) < PeakHoldTimeMillis T")
  case True
  then show ?thesis
    by (simp add: decayed_peak_def Let_def)
next
  case False
  let ?h = "TicksToMillis T (q - m_PeakTimes m ! c)"
  have "0 \<le> (?h - PeakHoldTimeMillis T) / PeakFalloffTimeMillis T"
    using False assms(3) by simp
  with assms(2) have "m_PeakLevels m ! c - (?h - PeakHoldTimeMillis T) / PeakFalloffTimeMillis T \<le> 1"
    by linarith
  then show ?thesis
    using False by (simp add: decayed_peak_def Let_def Utility_Clamp_unit Utility_Max_eq)
qed

lemma query_peak:
  assumes "wf_monitor m" and "peaks_in_range m"
    and "length ls = ChannelCount" and "length ps = ChannelCount"
    and "c < ChannelCount" and "0 < PeakFalloffTimeMillis T"
  shows "out_peaks (GetChannelLevels T q ls ps m) ! c =
           max (out_levels (GetChannelLevels T q ls ps m) ! c)
               (if TicksToMillis T (q - m_PeakTimes m ! c) < PeakHoldTimeMillis T
                then m_PeakLevels m ! c
                else max 0 (m_PeakLevels m ! c
                              - (TicksToMillis T (q - m_PeakTimes m ! c) - PeakHoldTimeMillis T)
                                / PeakFalloffTimeMillis T))"
    and "out_levels (GetChannelLevels T q ls ps m) ! c
           < out_peaks (GetChannelLevels T q ls ps m) ! c \<Longrightarrow>
         m_PeakLevels (fst (GetChannelLevels T q ls ps m)) ! c = m_PeakLevels m ! c \<and>
         m_PeakTimes (fst (GetChannelLevels T q ls ps m)) ! c = m_PeakTimes m ! c"
    and "out_levels (GetChannelLevels T q ls ps m) ! c
           = out_peaks (GetChannelLevels T q ls ps m) ! c \<Longrightarrow>
         m_PeakLevels (fst (GetChannelLevels T q ls ps m)) ! c
           = out_peaks (GetChannelLevels T q ls ps m) ! c \<and>
         m_PeakTimes (fst (GetChannelLevels T q ls ps m)) ! c = q"
proof -
  note F = GetChannelLevels_channel_facts [OF assms(1,3,4,5), of T q]
  have s: "0 \<le> m_PeakLevels m ! c" "m_PeakLevels m ! c \<le> 1"
    using stored_peak_range [OF assms(1,2,5)] by simp_all
  note D = decayed_peak_closed_form [OF s assms(6), of q]
  show "out_peaks (GetChannelLevels T q ls ps m) ! c =
           max (out_levels (GetChannelLevels T q ls ps m) ! c)
               (if TicksToMillis T (q - m_PeakTimes m ! c) < PeakHoldTimeMillis T
                then m_PeakLevels m ! c
                else max 0 (m_PeakLevels m ! c
                              - (TicksToMillis T (q - m_PeakTimes m ! c) - PeakHoldTimeMillis T)
                                / PeakFalloffTimeMillis T))"
    by (simp only: F(1,2) D)
  show "m_PeakLevels (fst (GetChannelLevels T q ls ps m)) ! c = m_PeakLevels m ! c \<and>
        m_PeakTimes (fst (GetChannelLevels T q ls ps m)) ! c = m_PeakTimes m ! c"
    if "out_levels (GetChannelLevels T q ls ps m) ! c
          < out_peaks (GetChannelLevels T q ls ps m) ! c"
  proof -
    from that have "\<not> decayed_peak T q m c \<le> channel_volume T q m c"
      by (simp add: F(1,2))
    then show ?thesis
      by (simp add: F(3,4))
  qed
  show "m_PeakLevels (fst (GetChannelLevels T q ls ps m)) ! c
          = out_peaks (GetChannelLevels T q ls ps m) ! c \<and>
        m_PeakTimes (fst (GetChannelLevels T q ls ps m)) ! c = q"
    if "out_levels (GetChannelLevels T q ls ps m) ! c
          = out_peaks (GetChannelLevels T q ls ps m) ! c"
  proof -
    from that have "decayed_peak T q m c \<le> channel_volume T q m c"
      by (simp add: F(1,2))
    then show ?thesis
      by (simp add: F)
  qed
qed

lemma session_peak:
  assumes "GetChannelLevels_session T ls ps steps m = Some rs"
    and "wf_monitor m" and "peaks_in_range m"
    and "length ls = ChannelCount" and "length ps = ChannelCount"
    and "c < ChannelCount" and "0 < PeakFalloffTimeMillis T"
    and "k < length steps"
    and "\<forall>j<k. out_levels (rs ! j) ! c < out_peaks (rs ! j) ! c"
  shows "out_peaks (rs ! k) ! c =
           max (out_levels (rs ! k) ! c)
               (if TicksToMillis T (snd (steps ! k) - m_PeakTimes m ! c) < PeakHoldTimeMillis T
                then m_PeakLevels m ! c
                else max 0 (m_PeakLevels m ! c
                              - (TicksToMillis T (snd (steps ! k) - m_PeakTimes m ! c)
                                   - PeakHoldTimeMillis T)
                                / PeakFalloffTimeMillis T))"
  using assms(1,2,3,8,9)
proof (induction steps arbitrary: m rs k)
  case Nil
  then show ?case by simp
next
  case (Cons s steps)
  from Cons.prems(1) obtain m' rs'
    where msgs: "OnShortMessages (fst s) m = Some m'"
      and rest: "GetChannelLevels_session T ls ps steps
                   (fst (GetChannelLevels T (snd s) ls ps m')) = Some rs'"
      and rs: "rs = GetChannelLevels T (snd s) ls ps m' # rs'"
    by (auto split: option.splits)
  let ?r = "GetChannelLevels T (snd s) ls ps m'"
  have wf': "wf_monitor m'"
    by (rule wf_OnShortMessages [OF Cons.prems(2) msgs])
  have pr': "peaks_in_range m'"
    by (rule peaks_in_range_OnShortMessages [OF Cons.prems(3) msgs])
  have same: "m_PeakLevels m' = m_PeakLevels m" "m_PeakTimes m' = m_PeakTimes m"
    using peaks_OnShortMessages [OF msgs] by simp_all
  note Q = query_peak [OF wf' pr' assms(4,5,6,7), of "snd s"]
  show ?case
  proof (cases k)
    case 0
    then show ?thesis
      using Q(1) by (simp add: rs same)
  next
    case (Suc k')
    from Cons.prems(5) Suc have quiet: "out_levels ?r ! c < out_peaks ?r ! c"
      by (auto simp add: rs)
    have kept: "m_PeakLevels (fst ?r) ! c = m_PeakLevels m ! c"
      "m_PeakTimes (fst ?r) ! c = m_PeakTimes m ! c"
      using Q(2) [OF quiet] by (simp_all add: same)
    have wfr: "wf_monitor (fst ?r)"
      by (rule GetChannelLevels_shape(2) [OF wf' assms(4,5)])
    have prr: "peaks_in_range (fst ?r)"
      by (rule peaks_in_range_GetChannelLevels [OF wf' pr' assms(4,5)])
    have k': "k' < length steps"
      using Cons.prems(4) Suc by simp
    have later: "\<forall>j<k'. out_levels (rs' ! j) ! c < out_peaks (rs' ! j) ! c"
    proof (intro allI impI)
      fix j
      assume "j < k'"
      then have "Suc j < k" using Suc by simp
      with Cons.prems(5) have "out_levels (rs ! Suc j) ! c < out_peaks (rs ! Suc j) ! c"
        by blast
      then show "out_levels (rs' ! j) ! c < out_peaks (rs' ! j) ! c"
        by (simp add: rs)
    qed
    from Cons.IH [OF rest wfr prr k' later] show ?thesis
      by (simp add: Suc rs kept)
  qed
qed

lemma zero_peak_query_updates:
  assumes "wf_monitor m"
    and "length ls = ChannelCount" and "length ps = ChannelCount"
    and "c < ChannelCount" and "0 < PeakFalloffTimeMillis T"
    and "m_PeakLevels m ! c = 0"
  shows "out_levels (GetChannelLevels T q ls ps m) ! c
           = out_peaks (GetChannelLevels T q ls ps m) ! c"
proof -
  note F = GetChannelLevels_channel_facts(1,2) [OF assms(1,2,3,4), of T q]
  have "decayed_peak T q m c \<le> m_PeakLevels m ! c"
    by (rule decayed_peak_le_stored) (use assms(5,6) in simp_all)
  then have "decayed_peak T q m c \<le> 0"
    using assms(6) by simp
  moreover have "0 \<le> channel_volume T q m c"
    using channel_volume_range [of T q m c] by simp
  ultimately show ?thesis
    by (simp add: F max_def)
qed

text \<open>
  Claim C8. Take a query at tick \<open>q0\<close> that updates the peak of a channel: it reports a
  peak \<open>P\<close> equal to the loudness (a query on a stored peak of 0, such as the first query
  of a monitor, always does). Let any session of steps follow, each handling messages and
  then querying, and take a later query before which no other query of the session has
  updated the peak, each having reported a loudness below its peak. With \<open>heldMs\<close> the
  milliseconds from \<open>q0\<close> to that query: while \<open>heldMs\<close> is below the hold time, the
  reported peak is the larger of the loudness and \<open>P\<close>, so it is never below \<open>P\<close>;
  from the hold time on, it is the larger of the loudness and \<open>P\<close> lowered by the excess
  over the hold time divided by the fall-off time, stopped at 0. The hold is counted from
  the tick of the update and the fall from the peak of the update at every query, which
  is the rate of 1 / fall-off time per millisecond.
\<close>

theorem peak_holds_then_decays:
  assumes "wf_monitor m" and "peaks_in_range m"
    and "length ls = ChannelCount" and "length ps = ChannelCount"
    and "c < ChannelCount" and "0 < PeakFalloffTimeMillis T"
    and "out_levels (GetChannelLevels T q0 ls ps m) ! c
           = out_peaks (GetChannelLevels T q0 ls ps m) ! c"
    and "GetChannelLevels_session T ls ps steps (fst (GetChannelLevels T q0 ls ps m)) = Some rs"
    and "k < length steps"
    and "\<forall>j<k. out_levels (rs ! j) ! c < out_peaks (rs ! j) ! c"
    and "heldMs = TicksToMillis T (snd (steps ! k) - q0)"
    and "P = out_peaks (GetChannelLevels T q0 ls ps m) ! c"
  shows "(heldMs < PeakHoldTimeMillis T \<longrightarrow>
            out_peaks (rs ! k) ! c = max (out_levels (rs ! k) ! c) P \<and>
            P \<le> out_peaks (rs ! k) ! c) \<and>
         (PeakHoldTimeMillis T \<le> heldMs \<longrightarrow>
            out_peaks (rs ! k) ! c
              = max (out_levels (rs ! k) ! c)
                    (max 0 (P - (heldMs - PeakHoldTimeMillis T) / PeakFalloffTimeMillis T)))"
proof -
  let ?r0 = "GetChannelLevels T q0 ls ps m"
  have wf0: "wf_monitor (fst ?r0)"
    by (rule GetChannelLevels_shape(2) [OF assms(1,3,4)])
  have pr0: "peaks_in_range (fst ?r0)"
    by (rule peaks_in_range_GetChannelLevels [OF assms(1,2,3,4)])
  have base: "m_PeakLevels (fst ?r0) ! c = P" "m_PeakTimes (fst ?r0) ! c = q0"
    using query_peak(3) [OF assms(1,2,3,4,5,6) assms(7)] by (simp_all add: assms(12))
  note S = session_peak [OF assms(8) wf0 pr0 assms(3,4,5,6,9,10)]
  show ?thesis
    unfolding S base assms(11) by simp
qed


lemma silent_query:
  assumes "wf_monitor m" and "length ls = ChannelCount" and "length ps = ChannelCount"
    and "c < ChannelCount"
    and "\<forall>n < NoteCount. nNoteOnTime (note_at m c n) = 0"
  shows "out_levels (GetChannelLevels T q ls ps m) ! c = 0"
    and "wf_monitor (fst (GetChannelLevels T q ls ps m))"
    and "\<forall>n < NoteCount. nNoteOnTime (note_at (fst (GetChannelLevels T q ls ps m)) c n) = 0"
proof -
  show "out_levels (GetChannelLevels T q ls ps m) ! c = 0"
    using GetChannelLevels_channel_facts(1) [OF assms(1,2,3,4)] channel_volume_silent [OF assms(5)]
    by simp
  show "wf_monitor (fst (GetChannelLevels T q ls ps m))"
    by (rule GetChannelLevels_shape(2) [OF assms(1,2,3)])
  have "m_State (fst (GetChannelLevels T q ls ps m)) = m_State m"
    by (rule GetChannelLevels_shape(1) [OF assms(1,2,3)])
  then show "\<forall>n < NoteCount. nNoteOnTime (note_at (fst (GetChannelLevels T q ls ps m)) c n) = 0"
    using assms(5) by (simp add: note_at_def)
qed

lemma peak_example_first_query:
  "wf_monitor held_note_monitor"
  "peaks_in_range held_note_monitor"
  "out_levels (GetChannelLevels Timing_1MHz 1000 out_buffer out_buffer held_note_monitor) ! 0
     = 100 / 127"
  "out_peaks (GetChannelLevels Timing_1MHz 1000 out_buffer out_buffer held_note_monitor) ! 0
     = 100 / 127"
proof -
  have d: "msg_status 0x7F3C90 = 0x90" "msg_channel 0x7F3C90 = 0" "msg_data2 0x7F3C90 = 127"
    "unat (msg_data1 0x7F3C90) = 60"
    by (simp_all add: msg_defs)
  have n60: "unat (msg_data1 0x7F3C90) < NoteCount"
    by (simp add: d NoteCount_def)
  have c0: "(0::nat) < ChannelCount"
    by (simp add: ChannelCount_def)
  from note_on_fresh_monitor [OF d(1,2,3) n60, of 5] obtain m1
    where u1: "OnShortMessage 0x7F3C90 5 CMIDIMonitor_new = Some m1"
      and wf1: "wf_monitor m1"
      and n1: "note_at m1 0 (unat (msg_data1 0x7F3C90))
                 = \<lparr>nNoteOnTime = 5, nNoteOffTime = 0, nVelocity = 127\<rparr>"
      and o1: "\<forall>n' < NoteCount. n' \<noteq> unat (msg_data1 0x7F3C90) \<longrightarrow>
                 nNoteOnTime (note_at m1 0 n') = 0"
      and k1: "nVolume (m_State m1 ! 0) = 100" "nExpression (m_State m1 ! 0) = 127"
    by blast
  have m1: "held_note_monitor = m1"
    by (simp add: held_note_monitor_def u1)
  show wf: "wf_monitor held_note_monitor"
    by (simp add: m1 wf1)
  have "OnShortMessages [(0x7F3C90, 5)] CMIDIMonitor_new = Some m1"
    by (simp add: u1)
  then show pr: "peaks_in_range held_note_monitor"
    unfolding m1 by (rule peaks_in_range_OnShortMessages [OF peaks_in_range_new])
  have e1: "ComputeEnvelope Timing_1MHz 1000 (note_at m1 0 (unat (msg_data1 0x7F3C90))) = 1"
    by (simp add: n1 held_note_envelope)
  show lv: "out_levels (GetChannelLevels Timing_1MHz 1000 out_buffer out_buffer
                          held_note_monitor) ! 0 = 100 / 127"
    unfolding m1
    using single_note_level [OF wf1 length_out_buffer length_out_buffer n60 o1 _ k1 e1]
    by (simp add: n1)
  have stored: "m_PeakLevels held_note_monitor ! 0 = 0"
    "m_PeakTimes held_note_monitor ! 0 = 0"
    using peaks_OnShortMessage [OF u1]
    by (simp_all add: m1 CMIDIMonitor_new_def AllNotesOff_def ResetControllers_def
        ChannelCount_def)
  have f: "0 < PeakFalloffTimeMillis Timing_1MHz"
    by (simp add: Timing_1MHz_simps)
  show "out_peaks (GetChannelLevels Timing_1MHz 1000 out_buffer out_buffer
                     held_note_monitor) ! 0 = 100 / 127"
    unfolding query_peak(1) [OF wf pr length_out_buffer length_out_buffer c0 f] lv stored
    by (simp add: Timing_1MHz_simps TicksToMillis_1MHz_def)
qed

lemma peak_example_session:
  "GetChannelLevels_session Timing_1MHz out_buffer out_buffer peak_example_steps
     (fst (GetChannelLevels Timing_1MHz 1000 out_buffer out_buffer held_note_monitor))
     = Some peak_example_results"
  "length peak_example_results = 3"
  "out_levels (peak_example_results ! 0) ! 0 = 0"
  "out_levels (peak_example_results ! 1) ! 0 = 0"
  "out_levels (peak_example_results ! 2) ! 0 = 0"
proof -
  let ?m0 = "fst (GetChannelLevels Timing_1MHz 1000 out_buffer out_buffer held_note_monitor)"
  let ?m1 = "AllNotesOff ?m0"
  let ?r1 = "GetChannelLevels Timing_1MHz 1500000 out_buffer out_buffer ?m1"
  let ?r2 = "GetChannelLevels Timing_1MHz 2501000 out_buffer out_buffer (fst ?r1)"
  let ?r3 = "GetChannelLevels Timing_1MHz 2751000 out_buffer out_buffer (fst ?r2)"
  have c0: "(0::nat) < ChannelCount"
    by (simp add: ChannelCount_def)
  have cc: "OnShortMessage 0x007BB0 2000 m = Some (AllNotesOff m)" for m
    by (simp add: OnShortMessage_def msg_defs ProcessCC_def)
  have run: "GetChannelLevels_session Timing_1MHz out_buffer out_buffer peak_example_steps ?m0
               = Some [?r1, ?r2, ?r3]"
    by (simp add: peak_example_steps_def cc)
  then have res: "peak_example_results = [?r1, ?r2, ?r3]"
    by (simp add: peak_example_results_def)
  show "GetChannelLevels_session Timing_1MHz out_buffer out_buffer peak_example_steps ?m0
          = Some peak_example_results"
    by (simp only: run res)
  show "length peak_example_results = 3"
    by (simp add: res)
  have wf0: "wf_monitor ?m0"
    by (rule GetChannelLevels_shape(2)
          [OF peak_example_first_query(1) length_out_buffer length_out_buffer])
  have wf1: "wf_monitor ?m1"
    by (rule wf_AllNotesOff [OF wf0])
  have s1: "\<forall>n < NoteCount. nNoteOnTime (note_at ?m1 0 n) = 0"
    by (simp add: note_at_AllNotesOff [OF wf0 c0])
  note Q1 = silent_query [OF wf1 length_out_buffer length_out_buffer c0 s1,
                          of Timing_1MHz 1500000]
  note Q2 = silent_query [OF Q1(2) length_out_buffer length_out_buffer c0 Q1(3),
                          of Timing_1MHz 2501000]
  note Q3 = silent_query [OF Q2(2) length_out_buffer length_out_buffer c0 Q2(3),
                          of Timing_1MHz 2751000]
  show "out_levels (peak_example_results ! 0) ! 0 = 0"
    using Q1(1) by (simp add: res)
  show "out_levels (peak_example_results ! 1) ! 0 = 0"
    using Q2(1) by (simp add: res)
  show "out_levels (peak_example_results ! 2) ! 0 = 0"
    using Q3(1) by (simp add: res)
qed

theorem peak_holds_then_decays_witness:
  "wf_monitor held_note_monitor \<and> peaks_in_range held_note_monitor \<and>
   length out_buffer = ChannelCount \<and> (0::nat) < ChannelCount \<and>
   0 < PeakFalloffTimeMillis Timing_1MHz \<and>
   out_levels (GetChannelLevels Timing_1MHz 1000 out_buffer out_buffer held_note_monitor) ! 0
     = out_peaks (GetChannelLevels Timing_1MHz 1000 out_buffer out_buffer held_note_monitor) ! 0 \<and>
   out_peaks (GetChannelLevels Timing_1MHz 1000 out_buffer out_buffer held_note_monitor) ! 0
     = 100 / 127 \<and>
   GetChannelLevels_session Timing_1MHz out_buffer out_buffer peak_example_steps
     (fst (GetChannelLevels Timing_1MHz 1000 out_buffer out_buffer held_note_monitor))
     = Some peak_example_results \<and>
   (2::nat) < length peak_example_steps \<and>
   TicksToMillis Timing_1MHz (snd (peak_example_steps ! 0) - 1000)
     < PeakHoldTimeMillis Timing_1MHz \<and>
   out_levels (peak_example_results ! 0) ! 0 = 0 \<and>
   out_peaks (peak_example_results ! 0) ! 0 = 100 / 127 \<and>
   PeakHoldTimeMillis Timing_1MHz
     \<le> TicksToMillis Timing_1MHz (snd (peak_example_steps ! 1) - 1000) \<and>
   out_levels (peak_example_results ! 1) ! 0 = 0 \<and>
   out_peaks (peak_example_results ! 1) ! 0 = 73 / 254 \<and>
   PeakHoldTimeMillis Timing_1MHz
     \<le> TicksToMillis Timing_1MHz (snd (peak_example_steps ! 2) - 1000) \<and>
   out_levels (peak_example_results ! 2) ! 0 = 0 \<and>
   out_peaks (peak_example_results ! 2) ! 0 = 19 / 508"
proof -
  let ?r0 = "GetChannelLevels Timing_1MHz 1000 out_buffer out_buffer held_note_monitor"
  note h1 = peak_example_first_query(1) and h2 = peak_example_first_query(2)
  note h3 = length_out_buffer
  have h5: "(0::nat) < ChannelCount"
    by (simp add: ChannelCount_def)
  have h6: "0 < PeakFalloffTimeMillis Timing_1MHz"
    by (simp add: Timing_1MHz_simps)
  have h7: "out_levels ?r0 ! 0 = out_peaks ?r0 ! 0"
    by (simp only: peak_example_first_query(3,4))
  note p0 = peak_example_first_query(4)
  note h8 = peak_example_session(1)
  have len: "(0::nat) < length peak_example_steps" "(1::nat) < length peak_example_steps"
    "(2::nat) < length peak_example_steps"
    by (simp_all add: peak_example_steps_def)
  have t0: "TicksToMillis Timing_1MHz (snd (peak_example_steps ! 0) - 1000)
              < PeakHoldTimeMillis Timing_1MHz"
    and t1: "PeakHoldTimeMillis Timing_1MHz
              \<le> TicksToMillis Timing_1MHz (snd (peak_example_steps ! 1) - 1000)"
    and t2: "PeakHoldTimeMillis Timing_1MHz
              \<le> TicksToMillis Timing_1MHz (snd (peak_example_steps ! 2) - 1000)"
    by (simp_all add: peak_example_steps_def Timing_1MHz_simps TicksToMillis_1MHz_def)
  note l0 = peak_example_session(3) and l1 = peak_example_session(4)
    and l2 = peak_example_session(5)
  \<comment> \<open>first step: within the hold time\<close>
  have q0: "\<forall>j<0. out_levels (peak_example_results ! j) ! 0
                     < out_peaks (peak_example_results ! j) ! 0"
    by simp
  from peak_holds_then_decays [OF h1 h2 h3 h3 h5 h6 h7 h8 len(1) q0 refl refl] t0
  have "out_peaks (peak_example_results ! 0) ! 0
          = max (out_levels (peak_example_results ! 0) ! 0) (out_peaks ?r0 ! 0)"
    by blast
  then have p1: "out_peaks (peak_example_results ! 0) ! 0 = 100 / 127"
    unfolding l0 p0 by simp
  \<comment> \<open>second step: 500 ms beyond the hold time\<close>
  have q1: "\<forall>j<1. out_levels (peak_example_results ! j) ! 0
                     < out_peaks (peak_example_results ! j) ! 0"
    by (simp add: l0 p1)
  from peak_holds_then_decays [OF h1 h2 h3 h3 h5 h6 h7 h8 len(2) q1 refl refl] t1
  have "out_peaks (peak_example_results ! 1) ! 0
          = max (out_levels (peak_example_results ! 1) ! 0)
                (max 0 (out_peaks ?r0 ! 0
                          - (TicksToMillis Timing_1MHz (snd (peak_example_steps ! 1) - 1000)
                               - PeakHoldTimeMillis Timing_1MHz)
                            / PeakFalloffTimeMillis Timing_1MHz))"
    by blast
  then have p2: "out_peaks (peak_example_results ! 1) ! 0 = 73 / 254"
    unfolding l1 p0
    by (simp add: peak_example_steps_def Timing_1MHz_simps TicksToMillis_1MHz_def)
  \<comment> \<open>third step: 750 ms beyond the hold time\<close>
  have q2: "\<forall>j<2. out_levels (peak_example_results ! j) ! 0
                     < out_peaks (peak_example_results ! j) ! 0"
  proof (intro allI impI)
    fix j :: nat
    assume "j < 2"
    then have "j = 0 \<or> j = 1" by auto
    then show "out_levels (peak_example_results ! j) ! 0
                 < out_peaks (peak_example_results ! j) ! 0"
      using l0 p1 l1 p2 by auto
  qed
  from peak_holds_then_decays [OF h1 h2 h3 h3 h5 h6 h7 h8 len(3) q2 refl refl] t2
  have "out_peaks (peak_example_results ! 2) ! 0
          = max (out_levels (peak_example_results ! 2) ! 0)
                (max 0 (out_peaks ?r0 ! 0
                          - (TicksToMillis Timing_1MHz (snd (peak_example_steps ! 2) - 1000)
                               - PeakHoldTimeMillis Timing_1MHz)
                            / PeakFalloffTimeMillis Timing_1MHz))"
    by blast
  then have p3: "out_peaks (peak_example_results ! 2) ! 0 = 19 / 508"
    unfolding l2 p0
    by (simp add: peak_example_steps_def Timing_1MHz_simps TicksToMillis_1MHz_def)
  show ?thesis
    by (intro conjI h1 h2 h3 h5 h6 h7 p0 h8 len(3) t0 l0 p1 t1 l1 p2 t2 l2 p3)
qed

subsection \<open>Note-On with velocity 0\<close>






section \<open>Properties of the overlay state machine\<close>

lemmas ui_defs =
  Update_def Update_timeouts_def ShowSystemMessage_def DisplayImage_def
  SetBacklightEnabled_def DrawSystemState_def lcd_call_def

lemmas ui_example_defs =
  MillisToTicks_1MHz_def SystemMessageDisplayTimeMillis_def SystemMessageSpinnerTimeMillis_def
  CUserInterface_new_def CLCD_graphical_def

lemma format_without_arguments_examples:
  "format_without_arguments ''Ready'' = Some ''Ready''"
  "format_without_arguments ''100%%'' = Some ''100%''"
  "format_without_arguments ''%s'' = None"
  by simp_all

lemma backlight_DrawSystemState:
  "lcd_BacklightEnabled (DrawSystemState LCD ui) = lcd_BacklightEnabled LCD"
  by (simp add: DrawSystemState_def lcd_call_def Let_def)

lemma state_ShowSystemMessage:
  "m_State_ui (ShowSystemMessage undefinedBuffer pMessage True nTicks ui) = DisplayingSpinnerMessage"
  "m_State_ui (ShowSystemMessage undefinedBuffer pMessage False nTicks ui) = DisplayingMessage"
  "m_nStateTime (ShowSystemMessage undefinedBuffer pMessage bSpinner nTicks ui) = nTicks"
  by (simp_all add: ShowSystemMessage_def Let_def)

subsection \<open>Timeout of a system message\<close>

text \<open>
  Claim C4, counterexample, on a 1 MHz tick counter. A message with spinner is shown at
  tick 0; an \<open>Update\<close> at tick 3000000, when the 3000 ms of the message display time
  have passed, leaves the state at \<open>DisplayingSpinnerMessage\<close>.
\<close>

theorem spinner_message_timeout_counterexample:
  "MillisToTicks_1MHz SystemMessageDisplayTimeMillis \<le> 3000000 - 0 \<and>
   m_State_ui (ShowSystemMessage [] ''Loading'' True 0 CUserInterface_new)
     = DisplayingSpinnerMessage \<and>
   m_State_ui (fst (Update MillisToTicks_1MHz CLCD_graphical 3000000
                      (ShowSystemMessage [] ''Loading'' True 0 CUserInterface_new)))
     = DisplayingSpinnerMessage"
  by (simp add: ui_defs ui_example_defs Let_def)

text \<open>
  Claim C4, amended. \<open>ShowSystemMessage\<close> puts the machine in the Message state (without
  spinner) or the SpinnerMessage state (with spinner) and records the tick. In the Message
  state any single \<open>Update\<close> whose tick lies at least the message display time after the
  recorded tick returns the state to None. In the SpinnerMessage state no \<open>Update\<close>
  changes the state, whatever the elapsed time.
\<close>

theorem message_times_out_spinner_stays:
  "m_State_ui (ShowSystemMessage undefinedBuffer pMessage True nEntry ui0) = DisplayingSpinnerMessage \<and>
   m_State_ui (ShowSystemMessage undefinedBuffer pMessage False nEntry ui0) = DisplayingMessage \<and>
   m_nStateTime (ShowSystemMessage undefinedBuffer pMessage bSpinner nEntry ui0) = nEntry \<and>
   (m_State_ui ui = DisplayingMessage \<and>
    MillisToTicks SystemMessageDisplayTimeMillis \<le> nTicks - m_nStateTime ui
      \<longrightarrow> m_State_ui (fst (Update MillisToTicks LCD nTicks ui)) = TState_None) \<and>
   (m_State_ui ui = DisplayingSpinnerMessage
      \<longrightarrow> m_State_ui (fst (Update MillisToTicks LCD nTicks ui)) = DisplayingSpinnerMessage)"
  by (simp add: state_ShowSystemMessage Update_def Update_timeouts_def Let_def)

theorem message_times_out_spinner_stays_witness:
  "m_State_ui (ShowSystemMessage [] ''Ready'' False 0 CUserInterface_new) = DisplayingMessage \<and>
   MillisToTicks_1MHz SystemMessageDisplayTimeMillis
     \<le> 3000000 - m_nStateTime (ShowSystemMessage [] ''Ready'' False 0 CUserInterface_new) \<and>
   m_State_ui (fst (Update MillisToTicks_1MHz CLCD_graphical 3000000
                      (ShowSystemMessage [] ''Ready'' False 0 CUserInterface_new)))
     = TState_None \<and>
   m_State_ui (ShowSystemMessage [] ''Loading'' True 0 CUserInterface_new)
     = DisplayingSpinnerMessage \<and>
   m_State_ui (fst (Update MillisToTicks_1MHz CLCD_graphical 3000000
                      (ShowSystemMessage [] ''Loading'' True 0 CUserInterface_new)))
     = DisplayingSpinnerMessage"
proof -
  have h1: "m_State_ui (ShowSystemMessage [] ''Ready'' False 0 CUserInterface_new)
              = DisplayingMessage"
    by (simp add: state_ShowSystemMessage)
  have h2: "MillisToTicks_1MHz SystemMessageDisplayTimeMillis
              \<le> 3000000 - m_nStateTime (ShowSystemMessage [] ''Ready'' False 0 CUserInterface_new)"
    by (simp add: state_ShowSystemMessage ui_example_defs)
  have h3: "m_State_ui (ShowSystemMessage [] ''Loading'' True 0 CUserInterface_new)
              = DisplayingSpinnerMessage"
    by (simp add: state_ShowSystemMessage)
  from message_times_out_spinner_stays
         [where ui = "ShowSystemMessage [] ''Ready'' False 0 CUserInterface_new"
            and MillisToTicks = MillisToTicks_1MHz and nTicks = 3000000 and LCD = CLCD_graphical]
    h1 h2
  have a: "m_State_ui (fst (Update MillisToTicks_1MHz CLCD_graphical 3000000
                              (ShowSystemMessage [] ''Ready'' False 0 CUserInterface_new)))
             = TState_None"
    by blast
  from message_times_out_spinner_stays
         [where ui = "ShowSystemMessage [] ''Loading'' True 0 CUserInterface_new"
            and MillisToTicks = MillisToTicks_1MHz and nTicks = 3000000 and LCD = CLCD_graphical]
    h3
  have b: "m_State_ui (fst (Update MillisToTicks_1MHz CLCD_graphical 3000000
                              (ShowSystemMessage [] ''Loading'' True 0 CUserInterface_new)))
             = DisplayingSpinnerMessage"
    by blast
  show ?thesis
    by (intro conjI h1 h2 a h3 b)
qed

subsection \<open>Overlays requested in any state\<close>

text \<open>
  Claim C10. Whatever the current state, the two power-saving states included,
  \<open>ShowSystemMessage\<close> sets the state to \<open>DisplayingMessage\<close> or, with the spinner,
  to \<open>DisplayingSpinnerMessage\<close>, and \<open>DisplayImage\<close> stores the image and sets the
  state to \<open>DisplayingImage\<close>; both record the tick they read as the new state time.
  Neither operation is given the display, so neither can touch the backlight, and the
  \<open>Update\<close> that follows and draws the overlay leaves the backlight as it finds it.
\<close>

theorem overlay_requests_set_state_and_keep_backlight:
  "m_State_ui (ShowSystemMessage undefinedBuffer pMessage True nTicks ui) = DisplayingSpinnerMessage \<and>
   m_State_ui (ShowSystemMessage undefinedBuffer pMessage False nTicks ui) = DisplayingMessage \<and>
   m_nStateTime (ShowSystemMessage undefinedBuffer pMessage bSpinner nTicks ui) = nTicks \<and>
   m_State_ui (DisplayImage img nTicks ui) = DisplayingImage \<and>
   m_nStateTime (DisplayImage img nTicks ui) = nTicks \<and>
   m_CurrentImage (DisplayImage img nTicks ui) = img \<and>
   lcd_BacklightEnabled
     (snd (Update MillisToTicks LCD nNext (ShowSystemMessage undefinedBuffer pMessage bSpinner nTicks ui)))
     = lcd_BacklightEnabled LCD \<and>
   lcd_BacklightEnabled (snd (Update MillisToTicks LCD nNext (DisplayImage img nTicks ui)))
     = lcd_BacklightEnabled LCD"
proof -
  have s: "m_State_ui (ShowSystemMessage undefinedBuffer pMessage bSpinner nTicks ui) \<noteq> EnteringPowerSavingMode"
    by (cases bSpinner) (simp_all add: state_ShowSystemMessage)
  have "lcd_BacklightEnabled
          (snd (Update MillisToTicks LCD nNext (ShowSystemMessage undefinedBuffer pMessage bSpinner nTicks ui)))
          = lcd_BacklightEnabled LCD"
    using s by (simp add: Update_def Update_timeouts_def Let_def backlight_DrawSystemState)
  moreover have "lcd_BacklightEnabled
          (snd (Update MillisToTicks LCD nNext (DisplayImage img nTicks ui)))
          = lcd_BacklightEnabled LCD"
    by (simp add: Update_def Update_timeouts_def Let_def DisplayImage_def
        backlight_DrawSystemState)
  ultimately show ?thesis
    by (simp add: state_ShowSystemMessage DisplayImage_def)
qed

theorem overlay_requests_set_state_and_keep_backlight_witness:
  "m_State_ui (ShowSystemMessage [] ''Hello'' False 7
                 (CUserInterface_new\<lparr>m_State_ui := InPowerSavingMode\<rparr>)) = DisplayingMessage \<and>
   m_State_ui (DisplayImage (TImage_Id 1) 7
                 (CUserInterface_new\<lparr>m_State_ui := EnteringPowerSavingMode\<rparr>))
     = DisplayingImage \<and>
   lcd_BacklightEnabled
     (snd (Update MillisToTicks_1MHz (CLCD_graphical\<lparr>lcd_BacklightEnabled := False\<rparr>) 8
             (ShowSystemMessage [] ''Hello'' False 7
                (CUserInterface_new\<lparr>m_State_ui := InPowerSavingMode\<rparr>))))
     = lcd_BacklightEnabled (CLCD_graphical\<lparr>lcd_BacklightEnabled := False\<rparr>) \<and>
   lcd_BacklightEnabled (CLCD_graphical\<lparr>lcd_BacklightEnabled := False\<rparr>) = False"
proof -
  note t = overlay_requests_set_state_and_keep_backlight
             [where ui = "CUserInterface_new\<lparr>m_State_ui := InPowerSavingMode\<rparr>"
                and pMessage = "''Hello''" and nTicks = 7 and bSpinner = False
                and MillisToTicks = MillisToTicks_1MHz and nNext = 8
                and LCD = "CLCD_graphical\<lparr>lcd_BacklightEnabled := False\<rparr>"]
  note u = overlay_requests_set_state_and_keep_backlight
             [where ui = "CUserInterface_new\<lparr>m_State_ui := EnteringPowerSavingMode\<rparr>"
                and img = "TImage_Id 1" and nTicks = 7]
  have b: "lcd_BacklightEnabled (CLCD_graphical\<lparr>lcd_BacklightEnabled := False\<rparr>) = False"
    by simp
  from t u b show ?thesis
    by blast
qed

end
